theory Spec2Isabelle
  imports Complex_Main "HOL-Library.Sublist" "HOL-Library.Multiset"
begin

section \<open>JavaScript values used by the routes\<close>

text \<open>
  Strings are lists of characters. Case mapping and whitespace are the ASCII ones;
  every other character is left alone by \<open>toLowerCase\<close> and \<open>toUpperCase\<close>.
  Numbers are real numbers: the finite doubles the routes compute with, without
  rounding, infinities or NaN.
\<close>

datatype js_error = TypeError | Error string

definition toLowerCase_char :: "char \<Rightarrow> char" where
  "toLowerCase_char c =
     (case map_of (zip ''ABCDEFGHIJKLMNOPQRSTUVWXYZ'' ''abcdefghijklmnopqrstuvwxyz'') c of
        Some d \<Rightarrow> d | None \<Rightarrow> c)"

definition toUpperCase_char :: "char \<Rightarrow> char" where
  "toUpperCase_char c =
     (case map_of (zip ''abcdefghijklmnopqrstuvwxyz'' ''ABCDEFGHIJKLMNOPQRSTUVWXYZ'') c of
        Some d \<Rightarrow> d | None \<Rightarrow> c)"

definition toLowerCase :: "string \<Rightarrow> string" where
  "toLowerCase s = map toLowerCase_char s"

definition toUpperCase :: "string \<Rightarrow> string" where
  "toUpperCase s = map toUpperCase_char s"

text \<open>\<open>s.includes(t)\<close>: \<open>t\<close> occurs in \<open>s\<close> as a contiguous substring.\<close>

fun includes_str :: "string \<Rightarrow> string \<Rightarrow> bool" where
  "includes_str [] t = (t = [])"
| "includes_str (c # cs) t = (prefix t (c # cs) \<or> includes_str cs t)"

text \<open>
  \<open>s.split(sep)\<close> for a string separator: the pieces between the occurrences of
  \<open>sep\<close>, found from left to right; the empty separator splits into characters.
  \<open>cur\<close> is the piece being read.
\<close>

function split_from :: "string \<Rightarrow> string \<Rightarrow> string \<Rightarrow> string list" where
  "split_from sep cur [] = [cur]"
| "split_from sep cur (c # cs) =
     (if sep \<noteq> [] \<and> prefix sep (c # cs)
      then cur # split_from sep [] (drop (length sep) (c # cs))
      else split_from sep (cur @ [c]) cs)"
  by pat_completeness auto
termination
  by (relation "measure (\<lambda>(sep, cur, s). length s)") auto

definition split :: "string \<Rightarrow> string \<Rightarrow> string list" where
  "split sep s = (if sep = [] then map (\<lambda>c. [c]) s else split_from sep [] s)"

text \<open>\<open>xs.join(sep)\<close>\<close>

fun join :: "string \<Rightarrow> string list \<Rightarrow> string" where
  "join sep [] = []"
| "join sep [x] = x"
| "join sep (x # y # ys) = x @ sep @ join sep (y # ys)"

definition is_space :: "char \<Rightarrow> bool" where
  "is_space c = (c \<in> set [CHR '' '', CHR 0x09, CHR 0x0A, CHR 0x0B, CHR 0x0C, CHR 0x0D])"

definition trim :: "string \<Rightarrow> string" where
  "trim s = rev (dropWhile is_space (rev (dropWhile is_space s)))"

text \<open>\<open>xs.filter(p)\<close> for a callback that can throw: the first throw ends the call.\<close>

fun filter_throwing :: "('a \<Rightarrow> js_error + bool) \<Rightarrow> 'a list \<Rightarrow> js_error + 'a list" where
  "filter_throwing p [] = Inr []"
| "filter_throwing p (x # xs) =
     (case p x of
        Inl e \<Rightarrow> Inl e
      | Inr b \<Rightarrow>
          (case filter_throwing p xs of
             Inl e \<Rightarrow> Inl e
           | Inr ys \<Rightarrow> Inr (if b then x # ys else ys)))"

section \<open>extractMainSubject\<close>

definition knownFigures :: "string list" where
  "knownFigures =
     [''elon musk'', ''taylor swift'', ''kanye'', ''kardashian'', ''trump'',
      ''biden'', ''beyonce'', ''drake'', ''zuckerberg'', ''gates'']"

text \<open>
  The callback \<open>word => word[0] === word[0].toUpperCase()\<close>: \<open>word[0]\<close> of the empty
  string is \<open>undefined\<close>, and calling a method on it is a TypeError.
\<close>

definition startsUpper :: "string \<Rightarrow> js_error + bool" where
  "startsUpper word =
     (case word of
        [] \<Rightarrow> Inl TypeError
      | c # _ \<Rightarrow> Inr ([c] = toUpperCase [c]))"

definition extractMainSubject :: "string \<Rightarrow> js_error + string" where
  "extractMainSubject topic =
     (let words = split '' '' (toLowerCase topic) in
      case find (\<lambda>figure. includes_str (toLowerCase topic) figure) knownFigures of
        Some figure \<Rightarrow> Inr figure
      | None \<Rightarrow>
          (case filter_throwing startsUpper (split '' '' topic) of
             Inl e \<Rightarrow> Inl e
           | Inr ws \<Rightarrow>
               (let properNouns = join '' '' ws in
                if properNouns \<noteq> [] then Inr properNouns
                else Inr (join '' '' (filter (\<lambda>word. length word > 3) (take 2 words))))))"

section \<open>Posts and the relevance filter of searchReddit\<close>

text \<open>
  A post as the routes read it. A field the code tests for presence is an option;
  \<open>None\<close> stands for \<open>undefined\<close> or \<open>null\<close>.
\<close>

record post =
  title :: string
  selftext :: "string option"
  score :: "real option"
  num_comments :: "real option"
  upvote_ratio :: "real option"
  total_awards_received :: "real option"
  controversiality :: "real option"
  created_utc :: real
  permalink :: string
  subreddit :: string
  post_id :: string

text \<open>\<open>s || ''\<close> for an optional string.\<close>

definition str_or_empty :: "string option \<Rightarrow> string" where
  "str_or_empty s = (case s of None \<Rightarrow> [] | Some t \<Rightarrow> t)"

text \<open>\<open>x > n\<close> for an optional number: \<open>undefined > n\<close> is false.\<close>

definition gt_num :: "real option \<Rightarrow> real \<Rightarrow> bool" where
  "gt_num x n = (case x of None \<Rightarrow> False | Some v \<Rightarrow> v > n)"

definition gossipIndicators :: "string list" where
  "gossipIndicators =
     [''rumor'', ''allegedly'', ''sources say'', ''insider'', ''exclusive'',
      ''spotted'', ''claims'', ''reveals'', ''drama'', ''scandal'', ''tea'',
      ''dating'', ''breakup'', ''split'', ''cheating'', ''divorce'',
      ''announcement'', ''confirmed'', ''denied'', ''source close to'']"

definition post_content :: "post \<Rightarrow> string" where
  "post_content p = toLowerCase (title p @ '' '' @ str_or_empty (selftext p))"

definition hasSearchTerms :: "string \<Rightarrow> post \<Rightarrow> bool" where
  "hasSearchTerms query p =
     (let content = post_content p;
          searchTerms = split '' '' (toLowerCase query)
      in list_ex (\<lambda>term. includes_str content term) searchTerms)"

definition hasGossipIndicators :: "post \<Rightarrow> bool" where
  "hasGossipIndicators p =
     list_ex (\<lambda>indicator. includes_str (post_content p) indicator) gossipIndicators"

definition hasSubstantialContent :: "post \<Rightarrow> bool" where
  "hasSubstantialContent p =
     (gt_num (map_option (\<lambda>t. real (length t)) (selftext p)) 100
      \<or> gt_num (num_comments p) 10)"

text \<open>The filter callback of searchReddit.\<close>

definition isRelevant :: "string \<Rightarrow> post \<Rightarrow> bool" where
  "isRelevant query p =
     (hasSearchTerms query p \<and> (hasGossipIndicators p \<or> hasSubstantialContent p))"

text \<open>
  What a \<open>fetch\<close> followed by \<open>response.json()\<close> gives: a throw, a response that is
  not ok, or the decoded \<open>children\<close> of the listing (none when the path is absent).
\<close>

datatype 'a response = NetworkError | NotOk | Ok 'a

text \<open>The loop over the gossip subreddits: \<open>allPosts.push(...posts)\<close> for each ok response.\<close>

definition gossipSubreddits :: "string list" where
  "gossipSubreddits =
     [''entertainment'', ''Deuxmoi'', ''popculturechat'', ''celebritygossip'',
      ''popheads'', ''BravoRealHousewives'', ''KUWTK'', ''blogsnark'', ''HollywoodGossip'']"

fun fetchSubreddits ::
  "(string \<Rightarrow> post list response) \<Rightarrow> string list \<Rightarrow> post list \<Rightarrow> js_error + post list" where
  "fetchSubreddits fetchSub [] allPosts = Inr allPosts"
| "fetchSubreddits fetchSub (s # ss) allPosts =
     (case fetchSub s of
        NetworkError \<Rightarrow> Inl (Error ''fetch failed'')
      | NotOk \<Rightarrow> fetchSubreddits fetchSub ss allPosts
      | Ok posts \<Rightarrow> fetchSubreddits fetchSub ss (allPosts @ posts))"

text \<open>
  The posts gathered before the filter: the subreddit searches, then the general
  search when fewer than five posts were found.
\<close>

definition gatherPosts ::
  "(string \<Rightarrow> post list response) \<Rightarrow> post list response \<Rightarrow> js_error + post list" where
  "gatherPosts fetchSub fetchGeneral =
     (case fetchSubreddits fetchSub gossipSubreddits [] of
        Inl e \<Rightarrow> Inl e
      | Inr allPosts \<Rightarrow>
          (if length allPosts < 5
           then (case fetchGeneral of
                   NetworkError \<Rightarrow> Inl (Error ''fetch failed'')
                 | NotOk \<Rightarrow> Inr allPosts
                 | Ok posts \<Rightarrow> Inr (allPosts @ posts))
           else Inr allPosts))"

text \<open>searchReddit: any throw inside is caught and gives the empty list.\<close>

definition searchReddit ::
  "(string \<Rightarrow> post list response) \<Rightarrow> post list response \<Rightarrow> string \<Rightarrow> post list" where
  "searchReddit fetchSub fetchGeneral query =
     (case gatherPosts fetchSub fetchGeneral of
        Inl e \<Rightarrow> []
      | Inr allPosts \<Rightarrow> filter (isRelevant query) allPosts)"

text \<open>
  searchReddit of src/app/api/reddit/route.ts: one general search, a response that is
  not ok throws, and the filter is the search-term test alone.
\<close>

definition searchReddit_reddit :: "post list response \<Rightarrow> string \<Rightarrow> post list" where
  "searchReddit_reddit fetchGeneral query =
     (case fetchGeneral of
        NetworkError \<Rightarrow> []
      | NotOk \<Rightarrow> []
      | Ok posts \<Rightarrow> filter (hasSearchTerms query) posts)"

section \<open>calculateEngagementScore\<close>

text \<open>
  An element of a comments array: a Reddit comment object with its \<open>data\<close> fields, or a
  plain string (the \<open>topComments\<close> that generateStories passes), for which
  \<open>comment?.data\<close> is \<open>undefined\<close>. Absent replies are the empty list.
\<close>

datatype comment =
    Text string
  | Comment (c_score: "real option") (c_body: "string option")
      (c_awards: "real option") (c_replies: "comment list")

text \<open>\<open>comment?.data?.score\<close> and \<open>comment?.data?.body\<close>\<close>

fun comment_score :: "comment \<Rightarrow> real option" where
  "comment_score (Text s) = None"
| "comment_score (Comment sc body aw replies) = sc"

fun comment_body :: "comment \<Rightarrow> string option" where
  "comment_body (Text s) = None"
| "comment_body (Comment sc body aw replies) = body"

text \<open>\<open>x || 0\<close> for an optional number.\<close>

definition num_or0 :: "real option \<Rightarrow> real" where
  "num_or0 x = (case x of None \<Rightarrow> 0 | Some v \<Rightarrow> v)"

text \<open>\<open>n || 1\<close> for a length.\<close>

definition len_or1 :: "nat \<Rightarrow> real" where
  "len_or1 n = (if n = 0 then 1 else real n)"

text \<open>
  hoursOld reads the clock: \<open>now\<close> is the value of \<open>Date.now()\<close>, in milliseconds;
  the timestamp is in seconds.
\<close>

definition hoursOld :: "int \<Rightarrow> real \<Rightarrow> real" where
  "hoursOld now timestamp = (real_of_int now / 1000 - timestamp) / 3600"

text \<open>
  The score is the sum of the values of \<open>components\<close> in the order the properties were
  added. The clock reading is a parameter, since \<open>freshness\<close> calls hoursOld.
\<close>

definition calculateEngagementScore :: "int \<Rightarrow> 'a post_scheme \<Rightarrow> comment list \<Rightarrow> real" where
  "calculateEngagementScore now p comments =
     (let score' = num_or0 (score p);
          commentCount = num_or0 (num_comments p);
          upvoteScore = score' * 1.0;
          commentCount' = commentCount * 2.0;
          controversyBonus =
            (case upvote_ratio p of
               None \<Rightarrow> 0
             | Some r \<Rightarrow> if r \<noteq> 0 then (r - 0.5) * 100 else 0);
          awards = num_or0 (total_awards_received p) * 10;
          freshness = max 0 (100 - hoursOld now (created_utc p)) * 2;
          commentScores =
            map (\<lambda>c. (the (comment_score c), real (length (str_or_empty (comment_body c)))))
              (filter (\<lambda>c. gt_num (comment_score c) 20) comments);
          avgCommentScore = foldl (\<lambda>sum c. sum + fst c) 0 commentScores
                            / len_or1 (length commentScores);
          avgCommentLength = foldl (\<lambda>sum c. sum + snd c) 0 commentScores
                             / len_or1 (length commentScores);
          commentQuality = avgCommentScore * 0.5 + avgCommentLength * 0.01
      in foldl (\<lambda>sum v. sum + v) 0
           [upvoteScore, commentCount', controversyBonus, awards, freshness, commentQuality])"

text \<open>
  calculateEngagementScore of src/app/api/reddit/route.ts. processComment updates three
  counters while it walks a comment and its replies.
\<close>

record counters =
  totalCommentScore :: real
  maxCommentDepth :: nat
  topCommentCount :: nat

fun processComment :: "comment \<Rightarrow> nat \<Rightarrow> counters \<Rightarrow> counters" where
  "processComment (Text s) depth k = k"
| "processComment (Comment sc body aw replies) depth k =
     (case sc of
        None \<Rightarrow> k
      | Some v \<Rightarrow>
          if v = 0 then k
          else
            (let k1 = k\<lparr>totalCommentScore := totalCommentScore k + v,
                        maxCommentDepth := max (maxCommentDepth k) depth\<rparr>;
                 k2 = (if v > 100 then k1\<lparr>topCommentCount := topCommentCount k1 + 1\<rparr> else k1)
             in fold (\<lambda>reply. processComment reply (depth + 1)) replies k2))"

definition calculateEngagementScore_reddit :: "'a post_scheme \<Rightarrow> comment list \<Rightarrow> real" where
  "calculateEngagementScore_reddit p comments =
     (let postScore = num_or0 (score p);
          commentCount = num_or0 (num_comments p);
          controversialityScore = num_or0 (controversiality p);
          k = fold (\<lambda>c. processComment c 0) comments
                \<lparr>totalCommentScore = 0, maxCommentDepth = 0, topCommentCount = 0\<rparr>;
          avgCommentScore =
            (if length comments > 0 then totalCommentScore k / real (length comments) else 0)
      in postScore * 0.4 + commentCount * 0.2 + avgCommentScore * 0.2
         + real (maxCommentDepth k) * 50 + real (topCommentCount k) * 100
         + controversialityScore * 50)"

section \<open>shuffleArray\<close>

text \<open>
  \<open>rnd k\<close> is the value of the \<open>k\<close>-th call of \<open>Math.random()\<close>, a number in
  \<open>[0, 1)\<close>. randomIndex is \<open>Math.floor(Math.random() * (i + 1))\<close>.
\<close>

definition randomIndex :: "real \<Rightarrow> nat \<Rightarrow> nat" where
  "randomIndex r i = nat \<lfloor>r * real (i + 1)\<rfloor>"

text \<open>\<open>[shuffled[i], shuffled[j]] = [shuffled[j], shuffled[i]]\<close>, for indices in range.\<close>

definition swap :: "nat \<Rightarrow> nat \<Rightarrow> 'a list \<Rightarrow> 'a list" where
  "swap i j xs = (xs[i := xs ! j])[j := xs ! i]"

text \<open>The loop \<open>for (let i = shuffled.length - 1; i > 0; i--)\<close>, at its \<open>k\<close>-th draw.\<close>

fun shuffle_loop :: "(nat \<Rightarrow> real) \<Rightarrow> nat \<Rightarrow> nat \<Rightarrow> 'a list \<Rightarrow> 'a list" where
  "shuffle_loop rnd k 0 shuffled = shuffled"
| "shuffle_loop rnd k (Suc i) shuffled =
     (let j = randomIndex (rnd k) (Suc i)
      in shuffle_loop rnd (Suc k) i (swap (Suc i) j shuffled))"

definition shuffleArray :: "(nat \<Rightarrow> real) \<Rightarrow> 'a list \<Rightarrow> 'a list" where
  "shuffleArray rnd array = shuffle_loop rnd 0 (length array - 1) array"

section \<open>formatRedditGossip and generateFakeGossip\<close>

text \<open>A post as fetchRedditPosts returns it: the post with four derived fields.\<close>

record rpost = post +
  engagementScore :: real
  topComments :: "string list"
  mainSubject :: string
  isPartialMatch :: bool

text \<open>
  \<open>s.split(/[.!?]+/)\<close>: the pieces between the maximal runs of sentence terminators.
\<close>

definition is_terminator :: "char \<Rightarrow> bool" where
  "is_terminator c = (c \<in> set ''.!?'')"

function split_sentences_from :: "string \<Rightarrow> string \<Rightarrow> string list" where
  "split_sentences_from cur [] = [cur]"
| "split_sentences_from cur (c # cs) =
     (if is_terminator c
      then cur # split_sentences_from [] (dropWhile is_terminator cs)
      else split_sentences_from (cur @ [c]) cs)"
  by pat_completeness auto
termination
  by (relation "measure (\<lambda>(cur, s). length s)")
     (auto simp: less_Suc_eq_le length_dropWhile_le)

definition split_sentences :: "string \<Rightarrow> string list" where
  "split_sentences s = split_sentences_from [] s"

text \<open>
  \<open>xs.sort((a, b) => key(b) - key(a))\<close>: the stable sort by descending key.
\<close>

definition sort_desc :: "('a \<Rightarrow> real) \<Rightarrow> 'a list \<Rightarrow> 'a list" where
  "sort_desc key xs = sort_key (\<lambda>x. - key x) xs"

definition formatRedditGossip :: "'a post_scheme \<Rightarrow> comment list \<Rightarrow> string" where
  "formatRedditGossip p comments =
     (let postContent = (if str_or_empty (selftext p) \<noteq> [] then str_or_empty (selftext p)
                         else title p);
          relevantComments =
            take 3 (map comment_body (filter (\<lambda>c. gt_num (comment_score c) 50) comments));
          sentences =
            filter (\<lambda>s. length s > 20
                        \<and> \<not> includes_str (toLowerCase s) ''submission''
                        \<and> \<not> includes_str (toLowerCase s) ''posted'')
              (map trim (split_sentences postContent));
          scoredSentences =
            map (\<lambda>sentence.
                   (sentence,
                    real (length (filter (\<lambda>indicator.
                                     includes_str (toLowerCase sentence) indicator)
                                    gossipIndicators) * 2
                          + (if length sentence > 100 then 1 else 0))))
              sentences;
          bestSentences = map fst (take 3 (sort_desc snd scoredSentences));
          bestSentences' =
            (if length bestSentences < 2 \<and> length relevantComments > 0
             then bestSentences
                  @ take 2 (filter (\<lambda>s. length s > 20)
                              (map trim
                                 (split_sentences
                                    (join '' '' (map str_or_empty relevantComments)))))
             else bestSentences);
          finalContent =
            (if length bestSentences' \<ge> 2 then join ''. '' bestSentences'
             else title p @ ''. '' @ (case sentences of [] \<Rightarrow> [] | s # _ \<Rightarrow> s))
      in trim finalContent @ ''.'')"

text \<open>
  The chat completion that answers a request: the \<open>message.content\<close> of each choice
  (\<open>None\<close> for \<open>null\<close>). The race of the request against the 10-second timer ends in
  the completion, in a rejection of the request, or in the timer's rejection.
\<close>

datatype completion = Completion (choices: "string option list")

datatype api_outcome = Resolved completion | Rejected | TimedOut

definition fallbackGossip :: "string \<Rightarrow> string" where
  "fallbackGossip topic =
     ''Here's some alternative gossip about '' @ topic @ '': ''
     @ ''Rumor has it that there's been some interesting developments, ''
     @ ''but we're still waiting for more details to emerge...''"

text \<open>
  \<open>response.choices[0].message.content?.trim() || 'Failed to generate a story'\<close>;
  reading \<open>message\<close> of a missing first choice throws.
\<close>

definition firstContent :: "completion \<Rightarrow> js_error + string option" where
  "firstContent response =
     (case choices response of
        [] \<Rightarrow> Inl TypeError
      | content # _ \<Rightarrow> Inr (map_option trim content))"

text \<open>
  generateFakeGossip. The prompt is built from the four arguments, so the outcome of
  the race is given per request: \<open>api realGossip topic topComments isPartialMatch\<close>.
  Everything happens inside the \<open>try\<close>, and the \<open>catch\<close> returns the fallback text.
\<close>

definition generateFakeGossip ::
  "(string \<Rightarrow> string \<Rightarrow> string list \<Rightarrow> bool \<Rightarrow> api_outcome)
   \<Rightarrow> string \<Rightarrow> string \<Rightarrow> string list \<Rightarrow> bool \<Rightarrow> string" where
  "generateFakeGossip api realGossip topic topComments' partial =
     (case api realGossip topic topComments' partial of
        Resolved response \<Rightarrow>
          (case firstContent response of
             Inl e \<Rightarrow> fallbackGossip topic
           | Inr content \<Rightarrow>
               (if str_or_empty content \<noteq> [] then str_or_empty content
                else ''Failed to generate a story''))
      | Rejected \<Rightarrow> fallbackGossip topic
      | TimedOut \<Rightarrow> fallbackGossip topic)"

section \<open>generateStories\<close>

record story =
  content :: string
  isReal :: bool
  redditUrl :: "string option"
  story_engagementScore :: "real option"
  story_isPartialMatch :: bool
  story_mainSubject :: string
  story_subreddit :: "string option"
  storyId :: string

text \<open>What generateStories returns: the error object, or the stories object.\<close>

datatype generated =
    NoFreshGossip (gen_error: string) (gen_suggestion: string)
  | Stories (gen_stories: "story list") (gen_correctIndex: int) (gen_newStoryIds: "string list")

text \<open>\<open>xs.findIndex(p)\<close>: the first index where \<open>p\<close> holds, or \<open>-1\<close>.\<close>

fun findIndex :: "('a \<Rightarrow> bool) \<Rightarrow> 'a list \<Rightarrow> int" where
  "findIndex p [] = - 1"
| "findIndex p (x # xs) =
     (if p x then 0 else (let i = findIndex p xs in if i < 0 then - 1 else i + 1))"

text \<open>An integer in decimal, as a template literal prints it.\<close>

definition digit_char :: "int \<Rightarrow> char" where
  "digit_char d = ''0123456789'' ! nat d"

function digits :: "int \<Rightarrow> string" where
  "digits n = (if n < 10 then [digit_char n] else digits (n div 10) @ [digit_char (n mod 10)])"
  by pat_completeness auto
termination
  by (relation "measure nat") auto

definition decimal :: "int \<Rightarrow> string" where
  "decimal n = (if n < 0 then ''-'' @ digits (- n) else digits n)"

text \<open>
  getTrendingTopic, from the titles of the hot posts it fetches: the first three
  words of the first title that is neither a daily discussion nor a megathread; any
  failure gives the default.
\<close>

definition getTrendingTopic :: "string list response \<Rightarrow> string" where
  "getTrendingTopic hot =
     (case hot of
        Ok titles \<Rightarrow>
          (case find (\<lambda>t. \<not> includes_str (toLowerCase t) ''daily discussion''
                          \<and> \<not> includes_str (toLowerCase t) ''megathread'') titles of
             Some t \<Rightarrow> join '' '' (take 3 (split '' '' t))
           | None \<Rightarrow> ''Taylor Swift'')
      | NotOk \<Rightarrow> ''Taylor Swift''
      | NetworkError \<Rightarrow> ''Taylor Swift'')"

text \<open>
  What a request depends on besides its parameters: the clock reading, the draws of
  \<open>Math.random()\<close>, the outcome of the completion request, and what Reddit answers to
  each search, comment and hot-list request.
\<close>

datatype timeRange = Day | Week | Month

record env =
  env_now :: int
  env_random :: "nat \<Rightarrow> real"
  env_openai :: "string \<Rightarrow> string \<Rightarrow> string list \<Rightarrow> bool \<Rightarrow> api_outcome"
  env_searchSub :: "string \<Rightarrow> timeRange \<Rightarrow> string \<Rightarrow> post list response"
  env_searchGeneral :: "string \<Rightarrow> timeRange \<Rightarrow> post list response"
  env_comments :: "string \<Rightarrow> comment list"
  env_hotDeuxmoi :: "string list response"
  env_popularTitle :: "string option"

text \<open>The identifier \<open>`${post.subreddit}_${post.id}`\<close>.\<close>

definition postStoryId :: "'a post_scheme \<Rightarrow> string" where
  "postStoryId p = subreddit p @ ''_'' @ post_id p"

text \<open>The de-duplication step: posts whose identifier is among the recent ones are dropped.\<close>

definition freshPosts :: "rpost list \<Rightarrow> string list \<Rightarrow> rpost list" where
  "freshPosts posts recentStoryIds =
     (if length recentStoryIds > 0
      then filter (\<lambda>p. postStoryId p \<notin> set recentStoryIds) posts
      else posts)"

definition noFreshMessage :: "string \<Rightarrow> string" where
  "noFreshMessage topic =
     ''No fresh gossip found about '' @ [CHR 0x22] @ topic @ [CHR 0x22]
     @ ''. Try searching for a different celebrity or check back later for new tea! ''
     @ [CHR 0xE2, CHR 0x98, CHR 0x95, CHR 0xEF, CHR 0xB8, CHR 0x8F]"

definition realStoryOf :: "rpost \<Rightarrow> story" where
  "realStoryOf bestPost =
     \<lparr>content = formatRedditGossip bestPost (map Text (topComments bestPost)),
      isReal = True,
      redditUrl = Some (''https://reddit.com'' @ permalink bestPost),
      story_engagementScore = Some (engagementScore bestPost),
      story_isPartialMatch = isPartialMatch bestPost,
      story_mainSubject = mainSubject bestPost,
      story_subreddit = Some (subreddit bestPost),
      storyId = postStoryId bestPost\<rparr>"

definition fakeStoryOf :: "env \<Rightarrow> string \<Rightarrow> rpost \<Rightarrow> story" where
  "fakeStoryOf e topic bestPost =
     \<lparr>content = generateFakeGossip (env_openai e)
                   (formatRedditGossip bestPost (map Text (topComments bestPost)))
                   topic (topComments bestPost) (isPartialMatch bestPost),
      isReal = False,
      redditUrl = None,
      story_engagementScore = None,
      story_isPartialMatch = isPartialMatch bestPost,
      story_mainSubject = mainSubject bestPost,
      story_subreddit = None,
      storyId = ''fake_'' @ topic @ ''_'' @ decimal (env_now e)\<rparr>"

definition generateStories :: "env \<Rightarrow> rpost list \<Rightarrow> string \<Rightarrow> string list \<Rightarrow> generated" where
  "generateStories e posts topic recentStoryIds =
     (let scoredPosts =
            map (\<lambda>p. (p, calculateEngagementScore (env_now e) p (map Text (topComments p))))
              (freshPosts posts recentStoryIds)
      in case sort_desc snd scoredPosts of
           [] \<Rightarrow> NoFreshGossip (noFreshMessage topic) (getTrendingTopic (env_hotDeuxmoi e))
         | best # _ \<Rightarrow>
             (let bestPost = fst best;
                  stories = [realStoryOf bestPost, fakeStoryOf e topic bestPost];
                  shuffledStories = shuffleArray (env_random e) stories
              in Stories shuffledStories (findIndex isReal shuffledStories)
                   [storyId (stories ! 0)]))"

section \<open>fetchRedditPosts and the GET handler\<close>

definition searchRedditIn :: "env \<Rightarrow> string \<Rightarrow> timeRange \<Rightarrow> post list" where
  "searchRedditIn e query timeRange =
     searchReddit (env_searchSub e query timeRange) (env_searchGeneral e query timeRange) query"

text \<open>The comments kept as \<open>topComments\<close>: bodies of the first three good comments.\<close>

definition interestingComments :: "comment list \<Rightarrow> string list" where
  "interestingComments comments =
     take 3
       (map (\<lambda>c. str_or_empty (comment_body c))
          (filter (\<lambda>c. gt_num (comment_score c) 50
                       \<and> str_or_empty (comment_body c) \<noteq> []
                       \<and> length (str_or_empty (comment_body c)) > 20)
             comments))"

definition withEngagement :: "env \<Rightarrow> string \<Rightarrow> string \<Rightarrow> post \<Rightarrow> rpost" where
  "withEngagement e topic subject p =
     (let comments = env_comments e (permalink p)
      in post.extend p
           (rpost.fields (calculateEngagementScore (env_now e) p comments)
              (interestingComments comments) subject (subject \<noteq> topic)))"

definition quoted :: "string \<Rightarrow> string" where
  "quoted s = [CHR 0x22] @ s @ [CHR 0x22]"

text \<open>
  fetchRedditPosts. An array is truthy, so of
  \<open>searchReddit(day) || searchReddit(week) || searchReddit(month)\<close> only the first
  search runs. A throw of extractMainSubject and the \<open>No posts found\<close> error leave
  the function.
\<close>

definition fetchRedditPosts :: "env \<Rightarrow> string \<Rightarrow> js_error + rpost list" where
  "fetchRedditPosts e topic =
     (let exact = searchRedditIn e (quoted topic) Day;
          found =
            (if length exact = 0
             then (case extractMainSubject topic of
                     Inl err \<Rightarrow> Inl err
                   | Inr subject \<Rightarrow> Inr (subject, searchRedditIn e subject Day))
             else Inr (topic, exact))
      in case found of
           Inl err \<Rightarrow> Inl err
         | Inr (subject, posts) \<Rightarrow>
             (if length posts = 0
              then Inl (Error (''No posts found for '' @ quoted topic @ '' or '' @ quoted subject))
              else Inr (take 5 (sort_desc engagementScore
                                  (map (withEngagement e topic subject) posts)))))"

text \<open>The JSON body of a response; a property that is \<open>undefined\<close> is left out.\<close>

record json_body =
  stories :: "story list option"
  correctIndex :: "int option"
  originalTopic :: "string option"
  json_mainSubject :: "string option"
  json_isPartialMatch :: "bool option"
  newStoryIds :: "string list option"
  error :: "string option"
  suggestion :: "string option"
  message :: "string option"

definition emptyBody :: json_body where
  "emptyBody =
     \<lparr>stories = None, correctIndex = None, originalTopic = None, json_mainSubject = None,
      json_isPartialMatch = None, newStoryIds = None, error = None, suggestion = None,
      message = None\<rparr>"

record http_response =
  status :: nat
  body :: json_body

text \<open>\<open>error.message\<close>; the text of the TypeError is the engine's.\<close>

definition error_message :: "js_error \<Rightarrow> string" where
  "error_message err =
     (case err of
        Error m \<Rightarrow> m
      | TypeError \<Rightarrow> ''Cannot read properties of undefined (reading 'toUpperCase')'')"

text \<open>
  The \<open>recentStories\<close> query parameter: absent (or empty), not valid JSON, or a list
  of identifiers. It is parsed before the topic is looked at, and the message of the
  SyntaxError is the engine's.
\<close>

datatype recent_param = NoRecent | MalformedRecent | RecentIds "string list"

definition GET :: "env \<Rightarrow> string option \<Rightarrow> recent_param \<Rightarrow> http_response" where
  "GET e topicParam recentParam =
     (case recentParam of
        MalformedRecent \<Rightarrow>
          \<lparr>status = 500,
           body = emptyBody\<lparr>error := Some ''Failed to process request'',
                            message := Some ''Unexpected token in JSON''\<rparr>\<rparr>
      | _ \<Rightarrow>
       (let recentStoryIds = (case recentParam of RecentIds ids \<Rightarrow> ids | _ \<Rightarrow> [])
        in if str_or_empty topicParam = []
           then \<lparr>status = 400,
                 body = emptyBody\<lparr>error := Some ''Topic is required'',
                                  suggestion :=
                                    (if str_or_empty (env_popularTitle e) = [] then None
                                     else env_popularTitle e)\<rparr>\<rparr>
           else
             (let topic = str_or_empty topicParam
              in case fetchRedditPosts e topic of
                   Inl err \<Rightarrow>
                     \<lparr>status = 500,
                      body = emptyBody\<lparr>error := Some ''Failed to process request'',
                                       message := Some (error_message err)\<rparr>\<rparr>
                 | Inr posts \<Rightarrow>
                     (if length posts = 0
                      then \<lparr>status = 404,
                            body = emptyBody\<lparr>error := Some ''No relevant posts found'',
                                             suggestion :=
                                               Some ''Try a different or broader topic''\<rparr>\<rparr>
                      else
                        (let result = generateStories e posts topic recentStoryIds;
                             common = emptyBody\<lparr>originalTopic := Some topic,
                                                json_mainSubject := Some (mainSubject (posts ! 0)),
                                                json_isPartialMatch :=
                                                  Some (isPartialMatch (posts ! 0))\<rparr>
                         in case result of
                              NoFreshGossip err sugg \<Rightarrow> \<lparr>status = 200, body = common\<rparr>
                            | Stories ss ci ids \<Rightarrow>
                                \<lparr>status = 200,
                                 body = common\<lparr>stories := Some ss, correctIndex := Some ci,
                                               newStoryIds := Some ids\<rparr>\<rparr>)))))"

section \<open>Concrete inputs\<close>

text \<open>Three posts: one with gossip about the topic, one off topic, one on topic and plain.\<close>

definition examplePost :: post where
  "examplePost =
     \<lparr>title = ''Taylor Swift breakup rumor'', selftext = None, score = Some 120,
      num_comments = Some 4, upvote_ratio = Some 0.9, total_awards_received = None,
      controversiality = None, created_utc = 1700000000,
      permalink = ''/r/popheads/comments/abc'', subreddit = ''popheads'', post_id = ''abc''\<rparr>"

definition offTopicPost :: post where
  "offTopicPost = examplePost\<lparr>title := ''Weather scandal in Ohio'', post_id := ''xyz''\<rparr>"

definition plainPost :: post where
  "plainPost = examplePost\<lparr>title := ''Taylor Swift at the airport'', post_id := ''pln''\<rparr>"

text \<open>
  A concrete environment: Reddit answers the general search with two posts and nothing
  else, the completion request times out, and the draw is \<open>3/4\<close>.
\<close>

definition exampleEnv :: env where
  "exampleEnv =
     \<lparr>env_now = 1700003600000,
      env_random = (\<lambda>k. 3 / 4),
      env_openai = (\<lambda>realGossip topic comments partial. TimedOut),
      env_searchSub = (\<lambda>query timeRange sub. NotOk),
      env_searchGeneral = (\<lambda>query timeRange. Ok [examplePost, offTopicPost]),
      env_comments = (\<lambda>permalink. []),
      env_hotDeuxmoi = NotOk,
      env_popularTitle = None\<rparr>"

section \<open>The GET handler of src/app/api/gossip/route.ts\<close>

record gossipStory =
  gs_content :: string
  gs_isReal :: bool
  gs_redditUrl :: "string option"

record gossip_body =
  gb_topic :: "string option"
  gb_stories :: "gossipStory list option"
  gb_correctIndex :: "int option"
  gb_error :: "string option"
  gb_suggestion :: "string option"

record gossip_response =
  gr_status :: nat
  gr_body :: gossip_body

text \<open>
  What this handler depends on: the answer of the one Reddit search, the title read
  from the answer of r/popular (the \<open>ok\<close> flag is not looked at there; \<open>Inl\<close> is a throw
  of the fetch, of the decoding or of the path to the title), the outcomes of the two completion requests (there is no timer
  here, so an outcome other than a completion is a throw), and the order in which the
  engine's \<open>sort\<close> leaves the stories under the random comparator.
\<close>

record gossip_env =
  ge_search :: "post list response"
  ge_popularTitle :: "js_error + string option"
  ge_summarise :: "post \<Rightarrow> api_outcome"
  ge_fabricate :: "string \<Rightarrow> string \<Rightarrow> api_outcome"
  ge_sortRandom :: "gossipStory list \<Rightarrow> gossipStory list"

text \<open>
  \<open>best.score * 1.5 + best.num_comments\<close>. Here \<open>None\<close> is a missing field
  (\<open>undefined\<close>), which makes the sum NaN, and NaN compares false; a \<open>null\<close>, which
  would count as 0, is not told apart.
\<close>

definition gossipScore :: "post \<Rightarrow> real option" where
  "gossipScore p =
     (case (score p, num_comments p) of
        (Some s, Some n) \<Rightarrow> Some (s * 1.5 + n)
      | _ \<Rightarrow> None)"

definition selectBest :: "post \<Rightarrow> post \<Rightarrow> post" where
  "selectBest best current =
     (case (gossipScore current, gossipScore best) of
        (Some currentScore, Some bestScore) \<Rightarrow> if currentScore > bestScore then current else best
      | _ \<Rightarrow> best)"

text \<open>\<open>response.choices[0].message.content\<close>, untrimmed.\<close>

definition firstRaw :: "completion \<Rightarrow> js_error + string option" where
  "firstRaw response =
     (case choices response of
        [] \<Rightarrow> Inl TypeError
      | answer # _ \<Rightarrow> Inr answer)"

text \<open>The paragraphs of the second completion that become fake stories: at most two.\<close>

definition fakeGossipsOf :: "string option \<Rightarrow> string list" where
  "fakeGossipsOf answer =
     (case answer of
        None \<Rightarrow> []
      | Some text \<Rightarrow>
          take 2 (filter (\<lambda>gossip. length (trim gossip) > 0)
                    (split [CHR 0x0A, CHR 0x0A] text)))"

definition gossipFailure :: gossip_response where
  "gossipFailure =
     \<lparr>gr_status = 500,
      gr_body = \<lparr>gb_topic = None, gb_stories = None, gb_correctIndex = None,
                 gb_error = Some ''Failed to generate gossip'', gb_suggestion = None\<rparr>\<rparr>"

text \<open>The stories array: the real story, then one story per fake gossip.\<close>

definition gossipStories :: "string \<Rightarrow> post \<Rightarrow> string list \<Rightarrow> gossipStory list" where
  "gossipStories realGossip bestPost fakeGossips =
     \<lparr>gs_content = realGossip, gs_isReal = True,
      gs_redditUrl = Some (''https://reddit.com'' @ permalink bestPost)\<rparr>
     # map (\<lambda>c. \<lparr>gs_content = c, gs_isReal = False, gs_redditUrl = None\<rparr>) fakeGossips"

text \<open>The shuffle, \<open>findIndex\<close> and the response that ends the handler.\<close>

definition respondWithStories :: "gossip_env \<Rightarrow> string \<Rightarrow> gossipStory list \<Rightarrow> gossip_response" where
  "respondWithStories g topic stories' =
     (let shuffledStories = ge_sortRandom g stories'
      in \<lparr>gr_status = 200,
          gr_body = \<lparr>gb_topic = Some topic,
                     gb_stories = Some shuffledStories,
                     gb_correctIndex = Some (findIndex gs_isReal shuffledStories),
                     gb_error = None, gb_suggestion = None\<rparr>\<rparr>)"

definition GET_gossip :: "gossip_env \<Rightarrow> string option \<Rightarrow> gossip_response" where
  "GET_gossip g topicParam =
     (if str_or_empty topicParam = []
      then (case ge_popularTitle g of
              Inr trendingTopic \<Rightarrow>
                \<lparr>gr_status = 400,
                 gr_body = \<lparr>gb_topic = None, gb_stories = None, gb_correctIndex = None,
                            gb_error = Some ''Topic is required'',
                            gb_suggestion = trendingTopic\<rparr>\<rparr>
            | Inl err \<Rightarrow> gossipFailure)
      else
        (let topic = str_or_empty topicParam
         in case ge_search g of
              Ok posts \<Rightarrow>
                (case posts of
                   [] \<Rightarrow> gossipFailure
                 | first # others \<Rightarrow>
                     (let bestPost = foldl selectBest first others
                      in case ge_summarise g bestPost of
                           Resolved realGossipResponse \<Rightarrow>
                             (case firstContent realGossipResponse of
                                Inl err \<Rightarrow> gossipFailure
                              | Inr summary \<Rightarrow>
                                  (let realGossip = str_or_empty summary
                                   in case ge_fabricate g topic realGossip of
                                        Resolved fakeGossipResponse \<Rightarrow>
                                          (case firstRaw fakeGossipResponse of
                                             Inl err \<Rightarrow> gossipFailure
                                           | Inr answer \<Rightarrow>
                                               respondWithStories g topic
                                                 (gossipStories realGossip bestPost
                                                    (fakeGossipsOf answer)))
                                      | _ \<Rightarrow> gossipFailure))
                         | _ \<Rightarrow> gossipFailure))
            | _ \<Rightarrow> gossipFailure))"

text \<open>
  A concrete environment for this handler: one post found, a summary, a second
  completion with two paragraphs, and a sort that leaves the order as it is.
\<close>

definition exampleGossipEnv :: gossip_env where
  "exampleGossipEnv =
     \<lparr>ge_search = Ok [examplePost],
      ge_popularTitle = Inl (Error ''fetch failed''),
      ge_summarise = (\<lambda>p. Resolved (Completion [Some ''Word is the two have split.''])),
      ge_fabricate =
        (\<lambda>topic realGossip.
           Resolved (Completion
             [Some (''A secret album is coming.'' @ [CHR 0x0A, CHR 0x0A]
                    @ ''A feud is brewing backstage.'')])),
      ge_sortRandom = (\<lambda>stories. stories)\<rparr>"

section \<open>The client: GossipGame\<close>

text \<open>
  An entry of the \<open>recentStories\<close> item of local storage, and the item itself: absent,
  not readable as a JSON array of entries (\<open>JSON.parse\<close> or \<open>filter\<close> throws), or a
  list of entries.
\<close>

record storyItem =
  item_id :: string
  item_timestamp :: int

datatype storage = NoItem | Unparsable | Items "storyItem list"


text \<open>
  The state of the component that the mount effect and fetchGossip read and write,
  with the stored item. (The timer, the score and the attempts are not touched by
  either.)
\<close>

record client =
  cl_topic :: string
  cl_stories :: "story list"
  cl_selectedIndex :: int
  cl_correctIndex :: int
  cl_revealed :: bool
  cl_loading :: bool
  cl_gameStarted :: bool
  cl_recentStories :: "string list"
  cl_error :: "string option"
  cl_storage :: storage

definition initialClient :: "string \<Rightarrow> storage \<Rightarrow> client" where
  "initialClient topic0 st =
     \<lparr>cl_topic = topic0, cl_stories = [], cl_selectedIndex = - 1, cl_correctIndex = - 1,
      cl_revealed = False, cl_loading = False, cl_gameStarted = False,
      cl_recentStories = [], cl_error = None, cl_storage = st\<rparr>"


text \<open>
  What the \<open>fetch\<close> of fetchGossip gives: a throw of \<open>fetch\<close> or \<open>response.json()\<close>
  with its message, or a response with its \<open>ok\<close> flag and decoded body.
\<close>

datatype reply = FetchFailed string | Reply bool json_body


text \<open>\<open>!data.stories || !data.correctIndex\<close>: an array is truthy, the number 0 is not.\<close>

definition invalidResponse :: "json_body \<Rightarrow> bool" where
  "invalidResponse data =
     (stories data = None
      \<or> (case correctIndex data of None \<Rightarrow> True | Some ci \<Rightarrow> ci = 0))"

text \<open>\<open>data.error || data.message || 'Failed to fetch gossip'\<close>\<close>

definition failureMessage :: "json_body \<Rightarrow> string" where
  "failureMessage data =
     (if str_or_empty (error data) \<noteq> [] then str_or_empty (error data)
      else if str_or_empty (message data) \<noteq> [] then str_or_empty (message data)
      else ''Failed to fetch gossip'')"

text \<open>The statements of the \<open>try\<close> block after the two checks.\<close>

definition acceptStories :: "int \<Rightarrow> json_body \<Rightarrow> client \<Rightarrow> client" where
  "acceptStories now data c =
     (let c1 = c\<lparr>cl_stories := the (stories data), cl_correctIndex := the (correctIndex data)\<rparr>;
          ids = (case newStoryIds data of None \<Rightarrow> [] | Some xs \<Rightarrow> xs);
          c2 = (if length ids > 0
                then (let newRecent =
                            map (\<lambda>i. \<lparr>item_id = i, item_timestamp = now\<rparr>) (cl_recentStories c)
                            @ map (\<lambda>i. \<lparr>item_id = i, item_timestamp = now\<rparr>) ids
                      in c1\<lparr>cl_recentStories := map item_id newRecent,
                            cl_storage := Items newRecent\<rparr>)
                else c1)
      in c2\<lparr>cl_selectedIndex := - 1, cl_revealed := False, cl_gameStarted := True\<rparr>)"

text \<open>
  fetchGossip: the state after the \<open>finally\<close>. A throw inside the \<open>try\<close> ends in
  \<open>setError\<close> with its message.
\<close>

definition fetchGossip :: "int \<Rightarrow> reply \<Rightarrow> client \<Rightarrow> client" where
  "fetchGossip now r c =
     (let c0 = c\<lparr>cl_loading := True, cl_error := None\<rparr>;
          c1 =
            (case r of
               FetchFailed msg \<Rightarrow> c0\<lparr>cl_error := Some msg\<rparr>
             | Reply ok data \<Rightarrow>
                 if \<not> ok
                 then (let c' = (if str_or_empty (suggestion data) \<noteq> []
                                 then c0\<lparr>cl_topic := str_or_empty (suggestion data)\<rparr>
                                 else c0)
                       in c'\<lparr>cl_error := Some (failureMessage data)\<rparr>)
                 else if invalidResponse data
                 then c0\<lparr>cl_error := Some ''Invalid response from server''\<rparr>
                 else acceptStories now data c0)
      in c1\<lparr>cl_loading := False\<rparr>)"




section \<open>Properties of extractMainSubject\<close>

lemma startsUpper_Nil: "startsUpper [] = Inl TypeError"
  by (simp add: startsUpper_def)

lemma startsUpper_Cons: "startsUpper (c # cs) = Inr ([c] = toUpperCase [c])"
  by (simp add: startsUpper_def)

lemma filter_throwing_startsUpper_empty:
  "[] \<in> set ws \<Longrightarrow> filter_throwing startsUpper ws = Inl TypeError"
proof (induction ws)
  case Nil
  then show ?case by simp
next
  case (Cons w ws)
  show ?case
  proof (cases w)
    case Nil
    then show ?thesis by (simp add: startsUpper_Nil)
  next
    case inner: (Cons c cs)
    with Cons.prems have "[] \<in> set ws" by simp
    with Cons.IH have "filter_throwing startsUpper ws = Inl TypeError" by simp
    with inner show ?thesis by (simp add: startsUpper_Cons)
  qed
qed

text \<open>
  C10: extractMainSubject is not total. A topic that contains no known figure and
  whose split on single spaces has an empty piece (two spaces in a row, a leading or a
  trailing space) makes the proper-noun filter throw a TypeError at
  \<open>word[0].toUpperCase()\<close>; no subject string is returned.
\<close>

theorem extractMainSubject_throws:
  assumes "find (\<lambda>figure. includes_str (toLowerCase topic) figure) knownFigures = None"
    and "[] \<in> set (split '' '' topic)"
  shows "extractMainSubject topic = Inl TypeError"
  using assms by (simp add: extractMainSubject_def filter_throwing_startsUpper_empty)

theorem extractMainSubject_throws_witness:
  "find (\<lambda>figure. includes_str (toLowerCase ''new  album'') figure) knownFigures = None
   \<and> split '' '' ''new  album'' = [''new'', '''', ''album'']
   \<and> extractMainSubject ''new  album'' = Inl TypeError"
proof -
  have a: "find (\<lambda>figure. includes_str (toLowerCase ''new  album'') figure) knownFigures = None"
    by code_simp
  have b: "split '' '' ''new  album'' = [''new'', '''', ''album'']"
    by code_simp
  have c: "[] \<in> set (split '' '' ''new  album'')"
    unfolding b by simp
  show ?thesis
    using a b extractMainSubject_throws [OF a c] by simp
qed

section \<open>Properties of the relevance filter\<close>

lemma hasSearchTerms_iff:
  "hasSearchTerms query p
     \<longleftrightarrow> (\<exists>t \<in> set (split '' '' (toLowerCase query)).
            includes_str (toLowerCase (title p @ '' '' @ str_or_empty (selftext p))) t)"
  by (simp add: hasSearchTerms_def post_content_def list_ex_iff)

lemma hasGossipIndicators_iff:
  "hasGossipIndicators p
     \<longleftrightarrow> (\<exists>k \<in> set gossipIndicators.
            includes_str (toLowerCase (title p @ '' '' @ str_or_empty (selftext p))) k)"
  by (simp add: hasGossipIndicators_def post_content_def list_ex_iff)

lemma hasSubstantialContent_iff:
  "hasSubstantialContent p
     \<longleftrightarrow> ((\<exists>t. selftext p = Some t \<and> length t > 100)
          \<or> (\<exists>n. num_comments p = Some n \<and> n > 10))"
  by (auto simp: hasSubstantialContent_def gt_num_def split: option.splits)

text \<open>
  C5, as amended: in the searchReddit that gathers from the gossip subreddits, a fetched
  post is in the output exactly when its lowercased title-plus-selftext contains one of
  the lowercased space-separated tokens of the query and it either contains a gossip
  indicator or is substantial (selftext longer than 100 characters or more than 10
  comments). In the searchReddit of src/app/api/reddit/route.ts a fetched post is in
  the output exactly when its text contains one of the tokens. In both, a post whose
  text contains none of the tokens is not in the output.
\<close>

theorem searchReddit_filter:
  assumes "gatherPosts fetchSub fetchGeneral = Inr allPosts"
    and "fetchOld = Ok oldPosts"
  shows "(p \<in> set (searchReddit fetchSub fetchGeneral query)
          \<longleftrightarrow> p \<in> set allPosts
              \<and> (\<exists>t \<in> set (split '' '' (toLowerCase query)).
                    includes_str (toLowerCase (title p @ '' '' @ str_or_empty (selftext p))) t)
              \<and> ((\<exists>k \<in> set gossipIndicators.
                     includes_str (toLowerCase (title p @ '' '' @ str_or_empty (selftext p))) k)
                 \<or> (\<exists>t. selftext p = Some t \<and> length t > 100)
                 \<or> (\<exists>n. num_comments p = Some n \<and> n > 10)))
       \<and> (p \<in> set (searchReddit_reddit fetchOld query)
          \<longleftrightarrow> p \<in> set oldPosts
              \<and> (\<exists>t \<in> set (split '' '' (toLowerCase query)).
                    includes_str (toLowerCase (title p @ '' '' @ str_or_empty (selftext p))) t))
       \<and> (\<not> (\<exists>t \<in> set (split '' '' (toLowerCase query)).
                 includes_str (toLowerCase (title p @ '' '' @ str_or_empty (selftext p))) t)
            \<longrightarrow> p \<notin> set (searchReddit fetchSub fetchGeneral query)
                \<and> p \<notin> set (searchReddit_reddit fetchOld query))"
proof -
  have rel: "isRelevant query p
     \<longleftrightarrow> (\<exists>t \<in> set (split '' '' (toLowerCase query)).
            includes_str (toLowerCase (title p @ '' '' @ str_or_empty (selftext p))) t)
         \<and> ((\<exists>k \<in> set gossipIndicators.
                includes_str (toLowerCase (title p @ '' '' @ str_or_empty (selftext p))) k)
            \<or> (\<exists>t. selftext p = Some t \<and> length t > 100)
            \<or> (\<exists>n. num_comments p = Some n \<and> n > 10))"
    unfolding isRelevant_def hasSearchTerms_iff hasGossipIndicators_iff hasSubstantialContent_iff
    by blast
  have out: "set (searchReddit fetchSub fetchGeneral query) = {p \<in> set allPosts. isRelevant query p}"
    using assms(1) by (simp add: searchReddit_def)
  have old: "set (searchReddit_reddit fetchOld query) = {p \<in> set oldPosts. hasSearchTerms query p}"
    using assms(2) by (simp add: searchReddit_reddit_def)
  show ?thesis
    using rel out old hasSearchTerms_iff [of query p] by blast
qed

theorem searchReddit_filter_witness:
  "gatherPosts (\<lambda>s. NotOk) (Ok [examplePost, offTopicPost]) = Inr [examplePost, offTopicPost]
   \<and> examplePost \<in> set (searchReddit (\<lambda>s. NotOk) (Ok [examplePost, offTopicPost]) ''Swift'')
   \<and> offTopicPost \<notin> set (searchReddit (\<lambda>s. NotOk) (Ok [examplePost, offTopicPost]) ''Swift'')
   \<and> examplePost \<in> set (searchReddit_reddit (Ok [examplePost, offTopicPost]) ''Swift'')
   \<and> offTopicPost \<notin> set (searchReddit_reddit (Ok [examplePost, offTopicPost]) ''Swift'')"
proof -
  have h: "gatherPosts (\<lambda>s. NotOk) (Ok [examplePost, offTopicPost])
             = Inr [examplePost, offTopicPost]"
    by (simp add: gatherPosts_def gossipSubreddits_def)
  have k: "Ok [examplePost, offTopicPost] = Ok [examplePost, offTopicPost]"
    by (rule refl)
  have yes: "hasSearchTerms ''Swift'' examplePost \<and> hasGossipIndicators examplePost"
    by code_simp
  have no: "\<not> hasSearchTerms ''Swift'' offTopicPost"
    by code_simp
  have "examplePost \<in> set (searchReddit (\<lambda>s. NotOk) (Ok [examplePost, offTopicPost]) ''Swift'')
      \<and> examplePost \<in> set (searchReddit_reddit (Ok [examplePost, offTopicPost]) ''Swift'')"
    using searchReddit_filter [OF h k, of examplePost "''Swift''"] yes
    by (simp add: hasSearchTerms_iff hasGossipIndicators_iff)
  moreover have "offTopicPost \<notin> set (searchReddit (\<lambda>s. NotOk) (Ok [examplePost, offTopicPost]) ''Swift'')
      \<and> offTopicPost \<notin> set (searchReddit_reddit (Ok [examplePost, offTopicPost]) ''Swift'')"
    using searchReddit_filter [OF h k, of offTopicPost "''Swift''"] no
    by (simp add: hasSearchTerms_iff)
  ultimately show ?thesis using h by simp
qed

text \<open>
  A post that names the query's token, has no gossip indicator, no selftext and four
  comments: the searchReddit of src/app/api/reddit/route.ts returns it.
\<close>

theorem searchReddit_filter_counterexample:
  "plainPost \<in> set (searchReddit_reddit (Ok [plainPost]) ''Swift'')
   \<and> \<not> hasGossipIndicators plainPost
   \<and> selftext plainPost = None
   \<and> num_comments plainPost = Some 4
   \<and> plainPost \<notin> set (searchReddit (\<lambda>s. NotOk) (Ok [plainPost]) ''Swift'')"
proof -
  have a: "searchReddit_reddit (Ok [plainPost]) ''Swift'' = [plainPost]"
    by code_simp
  have b: "\<not> hasGossipIndicators plainPost"
    by code_simp
  have c: "selftext plainPost = None \<and> num_comments plainPost = Some 4"
    by (simp add: plainPost_def examplePost_def)
  have d: "searchReddit (\<lambda>s. NotOk) (Ok [plainPost]) ''Swift'' = []"
    by code_simp
  show ?thesis using b c by (simp add: a d)
qed

section \<open>Properties of calculateEngagementScore\<close>

lemma calculateEngagementScore_split:
  "calculateEngagementScore now p comments
     = num_or0 (score p) + 2 * max 0 (100 - hoursOld now (created_utc p))
       + calculateEngagementScore 0 (p\<lparr>score := None, created_utc := 0\<rparr>) comments - 200"
  by (simp add: calculateEngagementScore_def Let_def num_or0_def hoursOld_def)

text \<open>
  C6: with the other post fields, the comments and the clock reading fixed, the
  engagement score is monotonically non-decreasing in the vote count, for the score of
  the stories route and for the score of src/app/api/reddit/route.ts.
\<close>

theorem calculateEngagementScore_mono:
  assumes "score1 \<le> score2"
  shows "calculateEngagementScore now (p\<lparr>score := Some score1\<rparr>) comments
           \<le> calculateEngagementScore now (p\<lparr>score := Some score2\<rparr>) comments
       \<and> calculateEngagementScore_reddit (p\<lparr>score := Some score1\<rparr>) comments
           \<le> calculateEngagementScore_reddit (p\<lparr>score := Some score2\<rparr>) comments"
  using assms
  by (simp add: calculateEngagementScore_def calculateEngagementScore_reddit_def
      Let_def num_or0_def)

theorem calculateEngagementScore_mono_witness:
  "(10::real) \<le> 20
   \<and> calculateEngagementScore 1700003600000 (examplePost\<lparr>score := Some 10\<rparr>) []
       \<le> calculateEngagementScore 1700003600000 (examplePost\<lparr>score := Some 20\<rparr>) []
   \<and> calculateEngagementScore_reddit (examplePost\<lparr>score := Some 10\<rparr>) []
       \<le> calculateEngagementScore_reddit (examplePost\<lparr>score := Some 20\<rparr>) []"
proof -
  have h: "(10::real) \<le> 20" by simp
  show ?thesis
    using h calculateEngagementScore_mono [OF h, of 1700003600000 examplePost "[]"] by simp
qed

text \<open>
  C7, as amended: calculateEngagementScore has no side effects, and its value is
  determined by its post and comments arguments together with the clock reading that
  hoursOld takes from \<open>Date.now()\<close>. Two invocations with identical arguments differ
  by twice the change of \<open>max(0, 100 - hoursOld)\<close> between the two readings, so they
  agree when the readings agree and when the post is at least 100 hours old at both.
\<close>

theorem calculateEngagementScore_clock:
  "calculateEngagementScore now1 p comments - calculateEngagementScore now2 p comments
     = 2 * (max 0 (100 - hoursOld now1 (created_utc p))
            - max 0 (100 - hoursOld now2 (created_utc p)))
   \<and> (100 \<le> hoursOld now1 (created_utc p) \<and> 100 \<le> hoursOld now2 (created_utc p)
        \<longrightarrow> calculateEngagementScore now1 p comments = calculateEngagementScore now2 p comments)"
proof -
  have d: "calculateEngagementScore now1 p comments - calculateEngagementScore now2 p comments
     = 2 * (max 0 (100 - hoursOld now1 (created_utc p))
            - max 0 (100 - hoursOld now2 (created_utc p)))"
    by (simp add: calculateEngagementScore_split [of now1] calculateEngagementScore_split [of now2])
  show ?thesis
  proof (intro conjI impI)
    show "calculateEngagementScore now1 p comments - calculateEngagementScore now2 p comments
     = 2 * (max 0 (100 - hoursOld now1 (created_utc p))
            - max 0 (100 - hoursOld now2 (created_utc p)))"
      by (rule d)
  next
    assume "100 \<le> hoursOld now1 (created_utc p) \<and> 100 \<le> hoursOld now2 (created_utc p)"
    then have "max 0 (100 - hoursOld now1 (created_utc p)) = 0"
      and "max 0 (100 - hoursOld now2 (created_utc p)) = 0"
      by simp_all
    with d show "calculateEngagementScore now1 p comments = calculateEngagementScore now2 p comments"
      by simp
  qed
qed

theorem calculateEngagementScore_clock_witness:
  "100 \<le> hoursOld 1700360000000 (created_utc examplePost)
   \<and> 100 \<le> hoursOld 1700720000000 (created_utc examplePost)
   \<and> calculateEngagementScore 1700360000000 examplePost []
       = calculateEngagementScore 1700720000000 examplePost []"
proof -
  have h: "100 \<le> hoursOld 1700360000000 (created_utc examplePost)
           \<and> 100 \<le> hoursOld 1700720000000 (created_utc examplePost)"
    by (simp add: hoursOld_def examplePost_def)
  show ?thesis
    using h calculateEngagementScore_clock [of 1700360000000 examplePost "[]" 1700720000000]
    by blast
qed

text \<open>
  The same post and the same (empty) comments, scored one hour and two hours after the
  post was created: the two scores differ.
\<close>

theorem calculateEngagementScore_clock_counterexample:
  "calculateEngagementScore 1700003600000 examplePost []
     \<noteq> calculateEngagementScore 1700007200000 examplePost []"
  by (simp add: calculateEngagementScore_def Let_def num_or0_def hoursOld_def examplePost_def
      gt_num_def len_or1_def)

section \<open>Properties of shuffleArray\<close>

lemma randomIndex_two:
  assumes "0 \<le> r" and "r < 1"
  shows "randomIndex r (Suc 0) = (if r < 1 / 2 then 0 else Suc 0)"
proof (cases "r < 1 / 2")
  case True
  with assms have "\<lfloor>r * 2\<rfloor> = 0" by (simp add: floor_eq_iff)
  with True show ?thesis by (simp add: randomIndex_def)
next
  case False
  with assms have "\<lfloor>r * 2\<rfloor> = 1" by (simp add: floor_eq_iff)
  with False show ?thesis by (simp add: randomIndex_def)
qed

lemma shuffleArray_two_index:
  "shuffleArray rnd [a, b] = swap 1 (randomIndex (rnd 0) 1) [a, b]"
  by (simp add: shuffleArray_def Let_def)

text \<open>
  C3: shuffleArray on a two-element list draws one index \<open>j\<close>, which is 0 or 1;
  \<open>j = 0\<close> gives the swapped order and \<open>j = 1\<close> the given order, and no other order
  comes out. The draws in \<open>[0, 1)\<close> that give the swapped order are those below
  \<open>1/2\<close>, the draws that give the given order are those from \<open>1/2\<close> on: two
  intervals of length \<open>1/2\<close>, so each order has probability \<open>1/2\<close> under a uniform
  draw.
\<close>

theorem shuffleArray_two:
  assumes "a \<noteq> b"
  shows "swap 1 0 [a, b] = [b, a] \<and> swap 1 1 [a, b] = [a, b]
       \<and> (\<forall>rnd. 0 \<le> rnd 0 \<and> rnd 0 < 1 \<longrightarrow>
             randomIndex (rnd 0) 1 \<in> {0, 1}
             \<and> shuffleArray rnd [a, b] = swap 1 (randomIndex (rnd 0) 1) [a, b]
             \<and> (shuffleArray rnd [a, b] = [b, a] \<longleftrightarrow> randomIndex (rnd 0) 1 = 0)
             \<and> (shuffleArray rnd [a, b] = [a, b] \<longleftrightarrow> randomIndex (rnd 0) 1 = 1))
       \<and> {r. 0 \<le> r \<and> r < 1 \<and> shuffleArray (\<lambda>k. r) [a, b] = [b, a]} = {0 ..< 1 / 2}
       \<and> {r. 0 \<le> r \<and> r < 1 \<and> shuffleArray (\<lambda>k. r) [a, b] = [a, b]} = {1 / 2 ..< 1}"
proof -
  have s0: "swap 1 0 [a, b] = [b, a]" and s1: "swap 1 1 [a, b] = [a, b]"
    by (simp_all add: swap_def)
  have sh: "shuffleArray rnd [a, b] = (if rnd 0 < 1 / 2 then [b, a] else [a, b])"
    if "0 \<le> rnd 0" and "rnd 0 < 1" for rnd :: "nat \<Rightarrow> real"
    using that by (simp add: shuffleArray_two_index randomIndex_two swap_def)
  have per: "randomIndex (rnd 0) 1 \<in> {0, 1}
             \<and> shuffleArray rnd [a, b] = swap 1 (randomIndex (rnd 0) 1) [a, b]
             \<and> (shuffleArray rnd [a, b] = [b, a] \<longleftrightarrow> randomIndex (rnd 0) 1 = 0)
             \<and> (shuffleArray rnd [a, b] = [a, b] \<longleftrightarrow> randomIndex (rnd 0) 1 = 1)"
    if "0 \<le> rnd 0 \<and> rnd 0 < 1" for rnd :: "nat \<Rightarrow> real"
    using that assms sh [of rnd] by (simp add: shuffleArray_two_index randomIndex_two)
  have i0: "{r. 0 \<le> r \<and> r < 1 \<and> shuffleArray (\<lambda>k. r) [a, b] = [b, a]} = {0 ..< 1 / 2}"
  proof (rule set_eqI)
    fix r :: real
    show "r \<in> {r. 0 \<le> r \<and> r < 1 \<and> shuffleArray (\<lambda>k. r) [a, b] = [b, a]} \<longleftrightarrow> r \<in> {0 ..< 1 / 2}"
      using assms sh [of "\<lambda>k. r"] by (cases "r < 1 / 2") auto
  qed
  have i1: "{r. 0 \<le> r \<and> r < 1 \<and> shuffleArray (\<lambda>k. r) [a, b] = [a, b]} = {1 / 2 ..< 1}"
  proof (rule set_eqI)
    fix r :: real
    show "r \<in> {r. 0 \<le> r \<and> r < 1 \<and> shuffleArray (\<lambda>k. r) [a, b] = [a, b]} \<longleftrightarrow> r \<in> {1 / 2 ..< 1}"
      using assms sh [of "\<lambda>k. r"] by (cases "r < 1 / 2") auto
  qed
  from per have per': "\<forall>rnd. 0 \<le> rnd 0 \<and> rnd 0 < 1 \<longrightarrow>
             randomIndex (rnd 0) 1 \<in> {0, 1}
             \<and> shuffleArray rnd [a, b] = swap 1 (randomIndex (rnd 0) 1) [a, b]
             \<and> (shuffleArray rnd [a, b] = [b, a] \<longleftrightarrow> randomIndex (rnd 0) 1 = 0)
             \<and> (shuffleArray rnd [a, b] = [a, b] \<longleftrightarrow> randomIndex (rnd 0) 1 = 1)"
    by (intro allI impI)
  show ?thesis
    by (intro conjI) (rule s0 s1 per' i0 i1)+
qed

theorem shuffleArray_two_witness:
  "True \<noteq> False
   \<and> shuffleArray (\<lambda>k. 1 / 4) [True, False] = [False, True]
   \<and> shuffleArray (\<lambda>k. 3 / 4) [True, False] = [True, False]
   \<and> {r. 0 \<le> r \<and> r < 1 \<and> shuffleArray (\<lambda>k. r) [True, False] = [False, True]} = {0 ..< 1 / 2}"
proof -
  have h: "True \<noteq> False" by simp
  have a: "randomIndex (1 / 4) 1 = 0" and b: "randomIndex (3 / 4) 1 = 1"
    by (simp_all add: randomIndex_two)
  have c: "(0::real) \<le> 1 / 4 \<and> (1 / 4 :: real) < 1" and d: "(0::real) \<le> 3 / 4 \<and> (3 / 4 :: real) < 1"
    by simp_all
  from shuffleArray_two [OF h] have
    all: "\<forall>rnd. 0 \<le> rnd 0 \<and> rnd 0 < 1 \<longrightarrow>
             (shuffleArray rnd [True, False] = [False, True] \<longleftrightarrow> randomIndex (rnd 0) 1 = 0)
             \<and> (shuffleArray rnd [True, False] = [True, False] \<longleftrightarrow> randomIndex (rnd 0) 1 = 1)"
    and i0: "{r. 0 \<le> r \<and> r < 1 \<and> shuffleArray (\<lambda>k. r) [True, False] = [False, True]} = {0 ..< 1 / 2}"
    by blast+
  from all [rule_format, of "\<lambda>k. 1 / 4"] a c
  have x: "shuffleArray (\<lambda>k. 1 / 4) [True, False] = [False, True]" by blast
  from all [rule_format, of "\<lambda>k. 3 / 4"] b d
  have y: "shuffleArray (\<lambda>k. 3 / 4) [True, False] = [True, False]" by blast
  show ?thesis using h x y i0 by blast
qed

section \<open>Properties of generateStories and the GET handler\<close>

lemma sort_desc_Nil_iff: "sort_desc key xs = [] \<longleftrightarrow> xs = []"
  unfolding sort_desc_def by (metis length_sort length_0_conv)

lemma sort_desc_head_in: "sort_desc key xs = b # rest \<Longrightarrow> b \<in> set xs"
  unfolding sort_desc_def by (metis list.set_intros(1) set_sort)

lemma freshPosts_subset: "set (freshPosts posts recentStoryIds) \<subseteq> set posts"
  by (auto simp: freshPosts_def)

lemma freshPosts_all_recent:
  assumes "\<forall>p \<in> set posts. postStoryId p \<in> set recentStoryIds"
  shows "freshPosts posts recentStoryIds = []"
proof (cases "recentStoryIds = []")
  case True
  with assms have "posts = []" by (cases posts) auto
  with True show ?thesis by (simp add: freshPosts_def)
next
  case False
  with assms show ?thesis by (simp add: freshPosts_def)
qed

lemma generateStories_none:
  "freshPosts posts recentStoryIds = [] \<Longrightarrow>
   generateStories e posts topic recentStoryIds
     = NoFreshGossip (noFreshMessage topic) (getTrendingTopic (env_hotDeuxmoi e))"
  by (simp add: generateStories_def sort_desc_def)

lemma generateStories_fresh:
  assumes "freshPosts posts recentStoryIds \<noteq> []"
  shows "\<exists>bestPost \<in> set (freshPosts posts recentStoryIds).
           generateStories e posts topic recentStoryIds
             = Stories (shuffleArray (env_random e) [realStoryOf bestPost, fakeStoryOf e topic bestPost])
                 (findIndex isReal
                    (shuffleArray (env_random e) [realStoryOf bestPost, fakeStoryOf e topic bestPost]))
                 [postStoryId bestPost]"
proof -
  let ?scored = "map (\<lambda>p. (p, calculateEngagementScore (env_now e) p (map Text (topComments p))))
                   (freshPosts posts recentStoryIds)"
  from assms have "sort_desc snd ?scored \<noteq> []" by (simp add: sort_desc_Nil_iff)
  then obtain best rest where b: "sort_desc snd ?scored = best # rest"
    by (cases "sort_desc snd ?scored") auto
  then have "best \<in> set ?scored" by (rule sort_desc_head_in)
  then have "fst best \<in> set (freshPosts posts recentStoryIds)" by auto
  moreover from b have "generateStories e posts topic recentStoryIds
             = Stories (shuffleArray (env_random e) [realStoryOf (fst best), fakeStoryOf e topic (fst best)])
                 (findIndex isReal
                    (shuffleArray (env_random e) [realStoryOf (fst best), fakeStoryOf e topic (fst best)]))
                 [postStoryId (fst best)]"
    by (simp add: generateStories_def Let_def realStoryOf_def)
  ultimately show ?thesis by blast
qed

lemma shuffleArray_two_cases:
  assumes "0 \<le> rnd 0" and "rnd 0 < 1"
  shows "shuffleArray rnd [a, b] = (if rnd 0 < 1 / 2 then [b, a] else [a, b])"
  using assms by (simp add: shuffleArray_two_index randomIndex_two swap_def)

lemma fetchRedditPosts_nonempty:
  assumes "fetchRedditPosts e topic = Inr posts"
  shows "posts \<noteq> []"
proof -
  have ne: "take 5 (sort_desc engagementScore (map f ps)) \<noteq> []" if "ps \<noteq> []"
    for f :: "post \<Rightarrow> rpost" and ps
    using that by (simp add: sort_desc_Nil_iff)
  show ?thesis
    using assms ne
    by (auto simp: fetchRedditPosts_def Let_def split: if_splits sum.splits prod.splits)
qed

lemma GET_with_posts:
  assumes "topic \<noteq> []" and "fetchRedditPosts e topic = Inr posts"
  shows "GET e (Some topic) (RecentIds recentStoryIds)
     = (case generateStories e posts topic recentStoryIds of
             NoFreshGossip err sugg \<Rightarrow>
               \<lparr>status = 200,
                body = emptyBody\<lparr>originalTopic := Some topic,
                                json_mainSubject := Some (mainSubject (posts ! 0)),
                                json_isPartialMatch := Some (isPartialMatch (posts ! 0))\<rparr>\<rparr>
           | Stories ss ci ids \<Rightarrow>
               \<lparr>status = 200,
                body = emptyBody\<lparr>originalTopic := Some topic,
                                json_mainSubject := Some (mainSubject (posts ! 0)),
                                json_isPartialMatch := Some (isPartialMatch (posts ! 0)),
                                stories := Some ss, correctIndex := Some ci,
                                newStoryIds := Some ids\<rparr>\<rparr>)"
proof -
  from assms(2) have "posts \<noteq> []" by (rule fetchRedditPosts_nonempty)
  then have len: "length posts \<noteq> 0" by simp
  have top: "str_or_empty (Some topic) = topic" by (simp add: str_or_empty_def)
  show ?thesis
    unfolding GET_def top Let_def
    using assms len by (simp split: generated.splits)
qed

lemma generateStories_two:
  assumes "freshPosts posts recentStoryIds \<noteq> []"
    and "0 \<le> env_random e 0" and "env_random e 0 < 1"
  shows "\<exists>bestPost \<in> set (freshPosts posts recentStoryIds).
           generateStories e posts topic recentStoryIds
             = (if env_random e 0 < 1 / 2
                then Stories [fakeStoryOf e topic bestPost, realStoryOf bestPost] 1
                       [postStoryId bestPost]
                else Stories [realStoryOf bestPost, fakeStoryOf e topic bestPost] 0
                       [postStoryId bestPost])"
proof -
  from generateStories_fresh [OF assms(1), of e topic]
  obtain bestPost where b: "bestPost \<in> set (freshPosts posts recentStoryIds)"
    and g: "generateStories e posts topic recentStoryIds
             = Stories (shuffleArray (env_random e) [realStoryOf bestPost, fakeStoryOf e topic bestPost])
                 (findIndex isReal
                    (shuffleArray (env_random e) [realStoryOf bestPost, fakeStoryOf e topic bestPost]))
                 [postStoryId bestPost]"
    by blast
  have r: "isReal (realStoryOf bestPost)" and f: "\<not> isReal (fakeStoryOf e topic bestPost)"
    by (simp_all add: realStoryOf_def fakeStoryOf_def)
  from g r f assms(2,3)
    shuffleArray_two_cases [of "env_random e" "realStoryOf bestPost" "fakeStoryOf e topic bestPost"]
  have "generateStories e posts topic recentStoryIds
             = (if env_random e 0 < 1 / 2
                then Stories [fakeStoryOf e topic bestPost, realStoryOf bestPost] 1
                       [postStoryId bestPost]
                else Stories [realStoryOf bestPost, fakeStoryOf e topic bestPost] 0
                       [postStoryId bestPost])"
    by simp
  with b show ?thesis by blast
qed

lemma GET_two_stories:
  assumes "topic \<noteq> []" and "fetchRedditPosts e topic = Inr posts"
    and "freshPosts posts recentStoryIds \<noteq> []"
    and "0 \<le> env_random e 0" and "env_random e 0 < 1"
  shows "status (GET e (Some topic) (RecentIds recentStoryIds)) = 200
       \<and> (\<exists>bestPost \<in> set (freshPosts posts recentStoryIds). \<exists>ss ci.
             stories (body (GET e (Some topic) (RecentIds recentStoryIds))) = Some ss
           \<and> correctIndex (body (GET e (Some topic) (RecentIds recentStoryIds))) = Some ci
           \<and> (ss = [fakeStoryOf e topic bestPost, realStoryOf bestPost] \<and> ci = 1
              \<or> ss = [realStoryOf bestPost, fakeStoryOf e topic bestPost] \<and> ci = 0))"
proof -
  from generateStories_two [OF assms(3,4,5), of topic]
  obtain bestPost where b: "bestPost \<in> set (freshPosts posts recentStoryIds)"
    and g: "generateStories e posts topic recentStoryIds
             = (if env_random e 0 < 1 / 2
                then Stories [fakeStoryOf e topic bestPost, realStoryOf bestPost] 1
                       [postStoryId bestPost]
                else Stories [realStoryOf bestPost, fakeStoryOf e topic bestPost] 0
                       [postStoryId bestPost])"
    by blast
  have "status (GET e (Some topic) (RecentIds recentStoryIds)) = 200"
    by (simp add: GET_with_posts [OF assms(1,2)] g)
  moreover have "\<exists>ss ci.
             stories (body (GET e (Some topic) (RecentIds recentStoryIds))) = Some ss
           \<and> correctIndex (body (GET e (Some topic) (RecentIds recentStoryIds))) = Some ci
           \<and> (ss = [fakeStoryOf e topic bestPost, realStoryOf bestPost] \<and> ci = 1
              \<or> ss = [realStoryOf bestPost, fakeStoryOf e topic bestPost] \<and> ci = 0)"
    by (simp add: GET_with_posts [OF assms(1,2)] g)
  ultimately show ?thesis using b by blast
qed

text \<open>
  C9: what the code does when the identifier (subreddit_id) of every fetched post is
  among the recent story identifiers. generateStories returns an object with only an
  error message and a suggested topic, with no stories and no correctIndex, and the GET
  handler answers with status 200 and neither stories nor correctIndex, as the claim
  says. The handler does not forward the object, though: it destructures \<open>stories\<close>,
  \<open>correctIndex\<close> and \<open>newStoryIds\<close>, all undefined, so the body holds
  \<open>originalTopic\<close>, \<open>mainSubject\<close> and \<open>isPartialMatch\<close> only, and the error
  message and the suggestion that generateStories built for the user are lost. The
  400, 404 and 500 answers of the same handler do carry their error and suggestion.
\<close>

theorem GET_no_fresh:
  assumes "topic \<noteq> []" and "fetchRedditPosts e topic = Inr posts"
    and "\<forall>p \<in> set posts. postStoryId p \<in> set recentStoryIds"
  shows "generateStories e posts topic recentStoryIds
           = NoFreshGossip (noFreshMessage topic) (getTrendingTopic (env_hotDeuxmoi e))
       \<and> GET e (Some topic) (RecentIds recentStoryIds)
           = \<lparr>status = 200,
              body = \<lparr>stories = None, correctIndex = None, originalTopic = Some topic,
                      json_mainSubject = Some (mainSubject (posts ! 0)),
                      json_isPartialMatch = Some (isPartialMatch (posts ! 0)),
                      newStoryIds = None, error = None, suggestion = None, message = None\<rparr>\<rparr>"
proof -
  from assms(3) have "freshPosts posts recentStoryIds = []" by (rule freshPosts_all_recent)
  then have g: "generateStories e posts topic recentStoryIds
           = NoFreshGossip (noFreshMessage topic) (getTrendingTopic (env_hotDeuxmoi e))"
    by (rule generateStories_none)
  then show ?thesis
    by (simp add: GET_with_posts [OF assms(1,2)] emptyBody_def)
qed

theorem GET_no_fresh_witness:
  "''Taylor Swift'' \<noteq> []
   \<and> fetchRedditPosts exampleEnv ''Taylor Swift''
       = Inr [withEngagement exampleEnv ''Taylor Swift'' ''taylor swift'' examplePost]
   \<and> postStoryId (withEngagement exampleEnv ''Taylor Swift'' ''taylor swift'' examplePost)
       \<in> set [''popheads_abc'']
   \<and> status (GET exampleEnv (Some ''Taylor Swift'') (RecentIds [''popheads_abc''])) = 200
   \<and> stories (body (GET exampleEnv (Some ''Taylor Swift'') (RecentIds [''popheads_abc'']))) = None
   \<and> correctIndex (body (GET exampleEnv (Some ''Taylor Swift'') (RecentIds [''popheads_abc''])))
       = None"
proof -
  have t: "''Taylor Swift'' \<noteq> []" by simp
  have f: "fetchRedditPosts exampleEnv ''Taylor Swift''
       = Inr [withEngagement exampleEnv ''Taylor Swift'' ''taylor swift'' examplePost]"
    by code_simp
  have i: "postStoryId (withEngagement exampleEnv ''Taylor Swift'' ''taylor swift'' examplePost)
       \<in> set [''popheads_abc'']"
    by code_simp
  then have a: "\<forall>p \<in> set [withEngagement exampleEnv ''Taylor Swift'' ''taylor swift'' examplePost].
           postStoryId p \<in> set [''popheads_abc'']"
    by simp
  show ?thesis
    using t f i GET_no_fresh [OF t f a] by simp
qed

text \<open>
  With every fetched post recently seen, the object that generateStories returns
  carries the error message and the suggestion, and the response of the GET handler
  carries neither.
\<close>

theorem GET_no_fresh_counterexample:
  "fetchRedditPosts exampleEnv ''Taylor Swift''
       = Inr [withEngagement exampleEnv ''Taylor Swift'' ''taylor swift'' examplePost]
   \<and> generateStories exampleEnv
         [withEngagement exampleEnv ''Taylor Swift'' ''taylor swift'' examplePost]
         ''Taylor Swift'' [''popheads_abc'']
       = NoFreshGossip (noFreshMessage ''Taylor Swift'') ''Taylor Swift''
   \<and> error (body (GET exampleEnv (Some ''Taylor Swift'') (RecentIds [''popheads_abc'']))) = None
   \<and> suggestion (body (GET exampleEnv (Some ''Taylor Swift'') (RecentIds [''popheads_abc''])))
       = None"
proof -
  have f: "fetchRedditPosts exampleEnv ''Taylor Swift''
       = Inr [withEngagement exampleEnv ''Taylor Swift'' ''taylor swift'' examplePost]"
    by code_simp
  have g: "generateStories exampleEnv
         [withEngagement exampleEnv ''Taylor Swift'' ''taylor swift'' examplePost]
         ''Taylor Swift'' [''popheads_abc'']
       = NoFreshGossip (noFreshMessage ''Taylor Swift'') ''Taylor Swift''"
    by code_simp
  have e: "error (body (GET exampleEnv (Some ''Taylor Swift'') (RecentIds [''popheads_abc''])))
       = None"
    by code_simp
  have s: "suggestion (body (GET exampleEnv (Some ''Taylor Swift'') (RecentIds [''popheads_abc''])))
       = None"
    by code_simp
  show ?thesis using f g e s by simp
qed

text \<open>
  C4: for every real excerpt, topic, comments and partial-match flag, when the
  completion request is rejected or loses the race against the 10-second timer,
  generateFakeGossip returns the fallback text, which names the topic; it has no
  throwing path. The endpoint then still answers with status 200 and two stories, the
  real one and a fake one whose content is the fallback text.
\<close>

theorem generateFakeGossip_fallback:
  "(api realGossip topic comments partial = Rejected
      \<or> api realGossip topic comments partial = TimedOut
    \<longrightarrow> generateFakeGossip api realGossip topic comments partial = fallbackGossip topic)
   \<and> fallbackGossip topic
       = ''Here's some alternative gossip about '' @ topic
         @ '': Rumor has it that there's been some interesting developments, but we're still waiting for more details to emerge...''
   \<and> (topic \<noteq> [] \<and> fetchRedditPosts e topic = Inr posts
        \<and> freshPosts posts recentStoryIds \<noteq> []
        \<and> 0 \<le> env_random e 0 \<and> env_random e 0 < 1
        \<and> (\<forall>excerpt cs pm. env_openai e excerpt topic cs pm = Rejected
                           \<or> env_openai e excerpt topic cs pm = TimedOut)
      \<longrightarrow> status (GET e (Some topic) (RecentIds recentStoryIds)) = 200
          \<and> (\<exists>real fake ci.
                isReal real \<and> \<not> isReal fake \<and> content fake = fallbackGossip topic
              \<and> correctIndex (body (GET e (Some topic) (RecentIds recentStoryIds))) = Some ci
              \<and> (stories (body (GET e (Some topic) (RecentIds recentStoryIds)))
                    = Some [fake, real] \<and> ci = 1
                 \<or> stories (body (GET e (Some topic) (RecentIds recentStoryIds)))
                    = Some [real, fake] \<and> ci = 0)))"
proof (intro conjI impI)
  assume "api realGossip topic comments partial = Rejected
      \<or> api realGossip topic comments partial = TimedOut"
  then show "generateFakeGossip api realGossip topic comments partial = fallbackGossip topic"
    by (auto simp: generateFakeGossip_def)
next
  show "fallbackGossip topic
       = ''Here's some alternative gossip about '' @ topic
         @ '': Rumor has it that there's been some interesting developments, but we're still waiting for more details to emerge...''"
    by (simp add: fallbackGossip_def)
next
  assume a: "topic \<noteq> [] \<and> fetchRedditPosts e topic = Inr posts
        \<and> freshPosts posts recentStoryIds \<noteq> []
        \<and> 0 \<le> env_random e 0 \<and> env_random e 0 < 1
        \<and> (\<forall>excerpt cs pm. env_openai e excerpt topic cs pm = Rejected
                           \<or> env_openai e excerpt topic cs pm = TimedOut)"
  then have two: "status (GET e (Some topic) (RecentIds recentStoryIds)) = 200
       \<and> (\<exists>bestPost \<in> set (freshPosts posts recentStoryIds). \<exists>ss ci.
             stories (body (GET e (Some topic) (RecentIds recentStoryIds))) = Some ss
           \<and> correctIndex (body (GET e (Some topic) (RecentIds recentStoryIds))) = Some ci
           \<and> (ss = [fakeStoryOf e topic bestPost, realStoryOf bestPost] \<and> ci = 1
              \<or> ss = [realStoryOf bestPost, fakeStoryOf e topic bestPost] \<and> ci = 0))"
    by (intro GET_two_stories) simp_all
  then show "status (GET e (Some topic) (RecentIds recentStoryIds)) = 200" by simp
  from two obtain bestPost ss ci where
    s: "stories (body (GET e (Some topic) (RecentIds recentStoryIds))) = Some ss"
    and c: "correctIndex (body (GET e (Some topic) (RecentIds recentStoryIds))) = Some ci"
    and o: "ss = [fakeStoryOf e topic bestPost, realStoryOf bestPost] \<and> ci = 1
              \<or> ss = [realStoryOf bestPost, fakeStoryOf e topic bestPost] \<and> ci = 0"
    by blast
  have r: "isReal (realStoryOf bestPost)" and f: "\<not> isReal (fakeStoryOf e topic bestPost)"
    by (simp_all add: realStoryOf_def fakeStoryOf_def)
  from a have "env_openai e (formatRedditGossip bestPost (map Text (topComments bestPost)))
                 topic (topComments bestPost) (isPartialMatch bestPost) = Rejected
             \<or> env_openai e (formatRedditGossip bestPost (map Text (topComments bestPost)))
                 topic (topComments bestPost) (isPartialMatch bestPost) = TimedOut"
    by blast
  then have "content (fakeStoryOf e topic bestPost) = fallbackGossip topic"
    by (auto simp: fakeStoryOf_def generateFakeGossip_def)
  with r f s c o
  show "\<exists>real fake ci.
                isReal real \<and> \<not> isReal fake \<and> content fake = fallbackGossip topic
              \<and> correctIndex (body (GET e (Some topic) (RecentIds recentStoryIds))) = Some ci
              \<and> (stories (body (GET e (Some topic) (RecentIds recentStoryIds)))
                    = Some [fake, real] \<and> ci = 1
                 \<or> stories (body (GET e (Some topic) (RecentIds recentStoryIds)))
                    = Some [real, fake] \<and> ci = 0)"
    by blast
qed

theorem generateFakeGossip_fallback_witness:
  "env_openai exampleEnv ''Some real excerpt.'' ''Taylor Swift'' [] True = TimedOut
   \<and> generateFakeGossip (env_openai exampleEnv) ''Some real excerpt.'' ''Taylor Swift'' [] True
       = fallbackGossip ''Taylor Swift''
   \<and> fetchRedditPosts exampleEnv ''Taylor Swift''
       = Inr [withEngagement exampleEnv ''Taylor Swift'' ''taylor swift'' examplePost]
   \<and> status (GET exampleEnv (Some ''Taylor Swift'') (RecentIds [])) = 200
   \<and> (\<exists>real fake ci.
         isReal real \<and> \<not> isReal fake \<and> content fake = fallbackGossip ''Taylor Swift''
       \<and> correctIndex (body (GET exampleEnv (Some ''Taylor Swift'') (RecentIds []))) = Some ci
       \<and> (stories (body (GET exampleEnv (Some ''Taylor Swift'') (RecentIds [])))
             = Some [fake, real] \<and> ci = 1
          \<or> stories (body (GET exampleEnv (Some ''Taylor Swift'') (RecentIds [])))
             = Some [real, fake] \<and> ci = 0))"
proof -
  have t: "env_openai exampleEnv ''Some real excerpt.'' ''Taylor Swift'' [] True = TimedOut"
    by (simp add: exampleEnv_def)
  have f: "fetchRedditPosts exampleEnv ''Taylor Swift''
       = Inr [withEngagement exampleEnv ''Taylor Swift'' ''taylor swift'' examplePost]"
    by code_simp
  have h: "''Taylor Swift'' \<noteq> []
        \<and> fetchRedditPosts exampleEnv ''Taylor Swift''
            = Inr [withEngagement exampleEnv ''Taylor Swift'' ''taylor swift'' examplePost]
        \<and> freshPosts [withEngagement exampleEnv ''Taylor Swift'' ''taylor swift'' examplePost] []
            \<noteq> []
        \<and> 0 \<le> env_random exampleEnv 0 \<and> env_random exampleEnv 0 < 1
        \<and> (\<forall>excerpt cs pm. env_openai exampleEnv excerpt ''Taylor Swift'' cs pm = Rejected
                           \<or> env_openai exampleEnv excerpt ''Taylor Swift'' cs pm = TimedOut)"
    using f by (simp add: exampleEnv_def freshPosts_def)
  show ?thesis
    using t f h
      generateFakeGossip_fallback [of "env_openai exampleEnv" "''Some real excerpt.''"
        "''Taylor Swift''" "[]" True exampleEnv
        "[withEngagement exampleEnv ''Taylor Swift'' ''taylor swift'' examplePost]" "[]"]
    by blast
qed

section \<open>Exactly one real story\<close>

lemma findIndex_found:
  "\<exists>x \<in> set xs. p x \<Longrightarrow>
   0 \<le> findIndex p xs \<and> nat (findIndex p xs) < length xs \<and> p (xs ! nat (findIndex p xs))"
proof (induction xs)
  case Nil
  then show ?case by simp
next
  case (Cons x xs)
  show ?case
  proof (cases "p x")
    case True
    then show ?thesis by simp
  next
    case False
    with Cons.prems have "\<exists>y \<in> set xs. p y" by simp
    with Cons.IH have ih: "0 \<le> findIndex p xs" "nat (findIndex p xs) < length xs"
      "p (xs ! nat (findIndex p xs))" by simp_all
    from False ih show ?thesis by (simp add: Let_def nat_add_distrib)
  qed
qed

lemma filter_one_unique:
  "length (filter p xs) = 1 \<Longrightarrow> i < length xs \<Longrightarrow> j < length xs
   \<Longrightarrow> p (xs ! i) \<Longrightarrow> p (xs ! j) \<Longrightarrow> i = j"
proof (induction xs arbitrary: i j)
  case Nil
  then show ?case by simp
next
  case (Cons x xs)
  show ?case
  proof (cases "p x")
    case True
    with Cons.prems(1) have none: "\<forall>y \<in> set xs. \<not> p y"
      by (simp add: filter_empty_conv)
    have "i = 0"
    proof (cases i)
      case (Suc k)
      with Cons.prems(2,4) none show ?thesis by (auto simp: nth_mem)
    qed simp
    moreover have "j = 0"
    proof (cases j)
      case (Suc k)
      with Cons.prems(3,5) none show ?thesis by (auto simp: nth_mem)
    qed simp
    ultimately show ?thesis by simp
  next
    case False
    with Cons.prems obtain i' j' where ij: "i = Suc i'" "j = Suc j'"
      by (cases i; cases j) auto
    from False Cons.prems(1) have a: "length (filter p xs) = 1" by simp
    from Cons.prems(2) ij(1) have b: "i' < length xs" by simp
    from Cons.prems(3) ij(2) have c: "j' < length xs" by simp
    from Cons.prems(4) ij(1) have d: "p (xs ! i')" by simp
    from Cons.prems(5) ij(2) have e: "p (xs ! j')" by simp
    from a b c d e have "i' = j'" by (rule Cons.IH)
    with ij show ?thesis by simp
  qed
qed

lemma one_real_index:
  assumes "length (filter p ss) = 1"
  shows "0 \<le> findIndex p ss \<and> nat (findIndex p ss) < length ss
       \<and> p (ss ! nat (findIndex p ss))
       \<and> (\<forall>i < length ss. p (ss ! i) \<longrightarrow> int i = findIndex p ss)"
proof -
  from assms have "filter p ss \<noteq> []" by auto
  then have "\<exists>x \<in> set ss. p x" by (simp add: filter_empty_conv)
  then have f: "0 \<le> findIndex p ss" "nat (findIndex p ss) < length ss"
    "p (ss ! nat (findIndex p ss))"
    using findIndex_found [of ss p] by simp_all
  have "int i = findIndex p ss" if "i < length ss" and "p (ss ! i)" for i
  proof -
    from assms that(1) f(2) that(2) f(3) have "i = nat (findIndex p ss)"
      by (rule filter_one_unique)
    with f(1) show ?thesis by simp
  qed
  with f show ?thesis by blast
qed

lemma fakeGossipsOf_length: "length (fakeGossipsOf answer) \<le> 2"
  by (simp add: fakeGossipsOf_def split: option.splits)

lemma no_real_among_fakes:
  "filter gs_isReal
     (map (\<lambda>c. \<lparr>gs_content = c, gs_isReal = False, gs_redditUrl = None\<rparr>) fakeGossips) = []"
  by (induction fakeGossips) simp_all

lemma gossipStories_one_real:
  "length (filter gs_isReal (gossipStories realGossip bestPost fakeGossips)) = 1"
  unfolding gossipStories_def by (simp add: no_real_among_fakes)

lemma GET_gossip_ok:
  assumes "gr_status (GET_gossip g topicParam) = 200"
  shows "\<exists>topic realGossip bestPost answer.
           GET_gossip g topicParam
             = respondWithStories g topic (gossipStories realGossip bestPost (fakeGossipsOf answer))"
  using assms unfolding GET_gossip_def Let_def
  by (auto simp: gossipFailure_def
      split: if_splits response.splits list.splits api_outcome.splits sum.splits)

lemma sortRandom_keeps:
  assumes "mset ss = mset xs"
  shows "length ss = length xs \<and> length (filter p ss) = length (filter p xs)"
proof -
  from assms have a: "length ss = length xs" by (rule mset_eq_length)
  from assms have "mset (filter p ss) = mset (filter p xs)" by (simp only: mset_filter)
  then have "length (filter p ss) = length (filter p xs)" by (rule mset_eq_length)
  with a show ?thesis by simp
qed

lemma GET_gossip_stories:
  assumes perm: "\<forall>xs. mset (ge_sortRandom g xs) = mset xs"
    and ok: "gr_status (GET_gossip g topicParam) = 200"
  shows "\<exists>ss ci. gb_stories (gr_body (GET_gossip g topicParam)) = Some ss
           \<and> gb_correctIndex (gr_body (GET_gossip g topicParam)) = Some ci
           \<and> 1 \<le> length ss \<and> length ss \<le> 3
           \<and> length (filter gs_isReal ss) = 1
           \<and> 0 \<le> ci \<and> nat ci < length ss \<and> gs_isReal (ss ! nat ci)
           \<and> (\<forall>i < length ss. gs_isReal (ss ! i) \<longrightarrow> int i = ci)"
proof -
  from GET_gossip_ok [OF ok] obtain topic realGossip bestPost answer where
    r: "GET_gossip g topicParam
          = respondWithStories g topic (gossipStories realGossip bestPost (fakeGossipsOf answer))"
    by blast
  define stories' where "stories' = gossipStories realGossip bestPost (fakeGossipsOf answer)"
  define ss where "ss = ge_sortRandom g stories'"
  from perm have m: "mset ss = mset stories'" unfolding ss_def by blast
  have l0: "length stories' = 1 + length (fakeGossipsOf answer)"
    unfolding stories'_def by (simp add: gossipStories_def)
  have o0: "length (filter gs_isReal stories') = 1"
    unfolding stories'_def by (rule gossipStories_one_real)
  from sortRandom_keeps [OF m, of gs_isReal] l0 o0
  have len: "length ss = 1 + length (fakeGossipsOf answer)"
    and one: "length (filter gs_isReal ss) = 1"
    by simp_all
  from len fakeGossipsOf_length [of answer] have b1: "1 \<le> length ss" and b2: "length ss \<le> 3"
    by simp_all
  have s: "gb_stories (gr_body (GET_gossip g topicParam)) = Some ss"
    unfolding r ss_def stories'_def by (simp add: respondWithStories_def Let_def)
  have c: "gb_correctIndex (gr_body (GET_gossip g topicParam)) = Some (findIndex gs_isReal ss)"
    unfolding r ss_def stories'_def by (simp add: respondWithStories_def Let_def)
  from one_real_index [OF one]
  have i1: "0 \<le> findIndex gs_isReal ss" and i2: "nat (findIndex gs_isReal ss) < length ss"
    and i3: "gs_isReal (ss ! nat (findIndex gs_isReal ss))"
    and i4: "\<forall>i < length ss. gs_isReal (ss ! i) \<longrightarrow> int i = findIndex gs_isReal ss"
    by simp_all
  show ?thesis
    by (rule exI [of _ ss], rule exI [of _ "findIndex gs_isReal ss"])
       (intro conjI s c b1 b2 one i1 i2 i3 i4)
qed

lemma GET_two_stories_index:
  assumes "topic \<noteq> []" and "fetchRedditPosts e topic = Inr posts"
    and "freshPosts posts recentStoryIds \<noteq> []"
    and "0 \<le> env_random e 0" and "env_random e 0 < 1"
  shows "\<exists>ss ci.
           stories (body (GET e (Some topic) (RecentIds recentStoryIds))) = Some ss
         \<and> correctIndex (body (GET e (Some topic) (RecentIds recentStoryIds))) = Some ci
         \<and> length ss = 2 \<and> length (filter isReal ss) = 1
         \<and> 0 \<le> ci \<and> nat ci < 2 \<and> isReal (ss ! nat ci)
         \<and> (\<forall>i < 2. isReal (ss ! i) \<longrightarrow> int i = ci)"
proof -
  from GET_two_stories [OF assms] obtain bestPost ss ci where
    s: "stories (body (GET e (Some topic) (RecentIds recentStoryIds))) = Some ss"
    and c: "correctIndex (body (GET e (Some topic) (RecentIds recentStoryIds))) = Some ci"
    and o: "ss = [fakeStoryOf e topic bestPost, realStoryOf bestPost] \<and> ci = 1
          \<or> ss = [realStoryOf bestPost, fakeStoryOf e topic bestPost] \<and> ci = 0"
    by blast
  have r: "isReal (realStoryOf bestPost)" and f: "\<not> isReal (fakeStoryOf e topic bestPost)"
    by (simp_all add: realStoryOf_def fakeStoryOf_def)
  have p: "length ss = 2 \<and> length (filter isReal ss) = 1
         \<and> 0 \<le> ci \<and> nat ci < 2 \<and> isReal (ss ! nat ci)
         \<and> (\<forall>i < 2. isReal (ss ! i) \<longrightarrow> int i = ci)"
  proof (rule disjE [OF o])
    assume a: "ss = [fakeStoryOf e topic bestPost, realStoryOf bestPost] \<and> ci = 1"
    have "\<forall>i < 2. isReal (ss ! i) \<longrightarrow> int i = ci"
    proof (intro allI impI)
      fix i :: nat
      assume "i < 2" and "isReal (ss ! i)"
      with a f show "int i = ci" by (cases i) simp_all
    qed
    with a r f show ?thesis by simp
  next
    assume a: "ss = [realStoryOf bestPost, fakeStoryOf e topic bestPost] \<and> ci = 0"
    have "\<forall>i < 2. isReal (ss ! i) \<longrightarrow> int i = ci"
    proof (intro allI impI)
      fix i :: nat
      assume "i < 2" and "isReal (ss ! i)"
      with a f show "int i = ci" by (cases i) simp_all
    qed
    with a r f show ?thesis by simp
  qed
  from s c p show ?thesis by blast
qed

text \<open>
  C1, as amended: for a non-empty topic whose post search returns a post that was not
  recently seen, the GET handler of the stories route answers with exactly two
  stories, exactly one of which has \<open>isReal = true\<close>, and \<open>correctIndex\<close> is the
  index of that story. The GET handler of src/app/api/gossip/route.ts, when it
  succeeds, answers with the real story and up to two fake ones (one to three
  stories), exactly one of which has \<open>isReal = true\<close>, and \<open>correctIndex\<close> is the
  index of that story; the order its random sort leaves is any permutation.
\<close>

theorem GET_one_real_story:
  "(topic \<noteq> [] \<and> fetchRedditPosts e topic = Inr posts
      \<and> freshPosts posts recentStoryIds \<noteq> []
      \<and> 0 \<le> env_random e 0 \<and> env_random e 0 < 1
    \<longrightarrow> status (GET e (Some topic) (RecentIds recentStoryIds)) = 200
        \<and> (\<exists>ss ci.
              stories (body (GET e (Some topic) (RecentIds recentStoryIds))) = Some ss
            \<and> correctIndex (body (GET e (Some topic) (RecentIds recentStoryIds))) = Some ci
            \<and> length ss = 2 \<and> length (filter isReal ss) = 1
            \<and> 0 \<le> ci \<and> nat ci < 2 \<and> isReal (ss ! nat ci)
            \<and> (\<forall>i < 2. isReal (ss ! i) \<longrightarrow> int i = ci)))
   \<and> ((\<forall>xs. mset (ge_sortRandom g xs) = mset xs)
        \<and> gr_status (GET_gossip g topicParam) = 200
      \<longrightarrow> (\<exists>ss ci.
              gb_stories (gr_body (GET_gossip g topicParam)) = Some ss
            \<and> gb_correctIndex (gr_body (GET_gossip g topicParam)) = Some ci
            \<and> 1 \<le> length ss \<and> length ss \<le> 3
            \<and> length (filter gs_isReal ss) = 1
            \<and> 0 \<le> ci \<and> nat ci < length ss \<and> gs_isReal (ss ! nat ci)
            \<and> (\<forall>i < length ss. gs_isReal (ss ! i) \<longrightarrow> int i = ci)))"
proof (intro conjI impI)
  assume a: "topic \<noteq> [] \<and> fetchRedditPosts e topic = Inr posts
      \<and> freshPosts posts recentStoryIds \<noteq> []
      \<and> 0 \<le> env_random e 0 \<and> env_random e 0 < 1"
  then have t: "topic \<noteq> []" and f: "fetchRedditPosts e topic = Inr posts"
    and n: "freshPosts posts recentStoryIds \<noteq> []"
    and r0: "0 \<le> env_random e 0" and r1: "env_random e 0 < 1"
    by simp_all
  from GET_two_stories [OF t f n r0 r1]
  show "status (GET e (Some topic) (RecentIds recentStoryIds)) = 200" by simp
  from GET_two_stories_index [OF t f n r0 r1]
  show "\<exists>ss ci.
              stories (body (GET e (Some topic) (RecentIds recentStoryIds))) = Some ss
            \<and> correctIndex (body (GET e (Some topic) (RecentIds recentStoryIds))) = Some ci
            \<and> length ss = 2 \<and> length (filter isReal ss) = 1
            \<and> 0 \<le> ci \<and> nat ci < 2 \<and> isReal (ss ! nat ci)
            \<and> (\<forall>i < 2. isReal (ss ! i) \<longrightarrow> int i = ci)" .
next
  assume "(\<forall>xs. mset (ge_sortRandom g xs) = mset xs)
        \<and> gr_status (GET_gossip g topicParam) = 200"
  then have p: "\<forall>xs. mset (ge_sortRandom g xs) = mset xs"
    and k: "gr_status (GET_gossip g topicParam) = 200"
    by simp_all
  from GET_gossip_stories [OF p k]
  show "\<exists>ss ci.
              gb_stories (gr_body (GET_gossip g topicParam)) = Some ss
            \<and> gb_correctIndex (gr_body (GET_gossip g topicParam)) = Some ci
            \<and> 1 \<le> length ss \<and> length ss \<le> 3
            \<and> length (filter gs_isReal ss) = 1
            \<and> 0 \<le> ci \<and> nat ci < length ss \<and> gs_isReal (ss ! nat ci)
            \<and> (\<forall>i < length ss. gs_isReal (ss ! i) \<longrightarrow> int i = ci)" .
qed

theorem GET_one_real_story_witness:
  "fetchRedditPosts exampleEnv ''Taylor Swift''
       = Inr [withEngagement exampleEnv ''Taylor Swift'' ''taylor swift'' examplePost]
   \<and> status (GET exampleEnv (Some ''Taylor Swift'') (RecentIds [])) = 200
   \<and> (\<exists>ss ci.
         stories (body (GET exampleEnv (Some ''Taylor Swift'') (RecentIds []))) = Some ss
       \<and> correctIndex (body (GET exampleEnv (Some ''Taylor Swift'') (RecentIds []))) = Some ci
       \<and> length ss = 2 \<and> length (filter isReal ss) = 1 \<and> isReal (ss ! nat ci))
   \<and> gr_status (GET_gossip exampleGossipEnv (Some ''Taylor Swift'')) = 200
   \<and> (\<exists>ss ci.
         gb_stories (gr_body (GET_gossip exampleGossipEnv (Some ''Taylor Swift''))) = Some ss
       \<and> gb_correctIndex (gr_body (GET_gossip exampleGossipEnv (Some ''Taylor Swift''))) = Some ci
       \<and> length (filter gs_isReal ss) = 1 \<and> gs_isReal (ss ! nat ci))"
proof -
  have f: "fetchRedditPosts exampleEnv ''Taylor Swift''
       = Inr [withEngagement exampleEnv ''Taylor Swift'' ''taylor swift'' examplePost]"
    by code_simp
  have h: "''Taylor Swift'' \<noteq> []
        \<and> fetchRedditPosts exampleEnv ''Taylor Swift''
            = Inr [withEngagement exampleEnv ''Taylor Swift'' ''taylor swift'' examplePost]
        \<and> freshPosts [withEngagement exampleEnv ''Taylor Swift'' ''taylor swift'' examplePost] []
            \<noteq> []
        \<and> 0 \<le> env_random exampleEnv 0 \<and> env_random exampleEnv 0 < 1"
    using f by (simp add: exampleEnv_def freshPosts_def)
  have k: "gr_status (GET_gossip exampleGossipEnv (Some ''Taylor Swift'')) = 200"
    by code_simp
  have p: "\<forall>xs. mset (ge_sortRandom exampleGossipEnv xs) = mset xs"
    by (simp add: exampleGossipEnv_def)
  show ?thesis
    using f h k p
      GET_one_real_story [of "''Taylor Swift''" exampleEnv
        "[withEngagement exampleEnv ''Taylor Swift'' ''taylor swift'' examplePost]" "[]"
        exampleGossipEnv "Some ''Taylor Swift''"]
    by blast
qed

text \<open>
  The handler of src/app/api/gossip/route.ts, with one post found and a second
  completion of two paragraphs: status 200 and three stories.
\<close>

theorem GET_one_real_story_counterexample:
  "ge_search exampleGossipEnv = Ok [examplePost]
   \<and> gr_status (GET_gossip exampleGossipEnv (Some ''Taylor Swift'')) = 200
   \<and> map_option (map gs_isReal)
        (gb_stories (gr_body (GET_gossip exampleGossipEnv (Some ''Taylor Swift''))))
       = Some [True, False, False]
   \<and> map_option length
        (gb_stories (gr_body (GET_gossip exampleGossipEnv (Some ''Taylor Swift''))))
       = Some 3"
proof -
  have a: "ge_search exampleGossipEnv = Ok [examplePost]"
    by (simp add: exampleGossipEnv_def)
  have b: "gr_status (GET_gossip exampleGossipEnv (Some ''Taylor Swift'')) = 200"
    by code_simp
  have c: "map_option (map gs_isReal)
        (gb_stories (gr_body (GET_gossip exampleGossipEnv (Some ''Taylor Swift''))))
       = Some [True, False, False]"
    by code_simp
  then have d: "map_option length
        (gb_stories (gr_body (GET_gossip exampleGossipEnv (Some ''Taylor Swift''))))
       = Some 3"
    by (cases "gb_stories (gr_body (GET_gossip exampleGossipEnv (Some ''Taylor Swift'')))")
       auto
  from a b c d show ?thesis by simp
qed

section \<open>Properties of the client\<close>

text \<open>
  C2: a response with status ok whose stories array is present and whose
  \<open>correctIndex\<close> is 0 (the real story first, which the server answers for a draw of
  at least \<open>1/2\<close>) fails the check \<open>!data.stories || !data.correctIndex\<close>:
  fetchGossip leaves the stories as they were and sets the error
  \<open>Invalid response from server\<close>. fetchGossip ends without an error exactly for an
  ok response with stories and a nonzero \<open>correctIndex\<close>, and then it takes over the
  stories and the index.
\<close>

theorem fetchGossip_rejects_index_zero:
  "(stories data \<noteq> None \<and> correctIndex data = Some 0
      \<longrightarrow> fetchGossip now (Reply True data) c
            = c\<lparr>cl_loading := False, cl_error := Some ''Invalid response from server''\<rparr>
          \<and> cl_stories (fetchGossip now (Reply True data) c) = cl_stories c)
   \<and> (cl_error (fetchGossip now r c) = None
        \<longleftrightarrow> (\<exists>data ss ci. r = Reply True data \<and> stories data = Some ss
                          \<and> correctIndex data = Some ci \<and> ci \<noteq> 0))
   \<and> (r = Reply True data \<and> stories data = Some ss \<and> correctIndex data = Some ci \<and> ci \<noteq> 0
        \<longrightarrow> cl_stories (fetchGossip now r c) = ss
          \<and> cl_correctIndex (fetchGossip now r c) = ci)"
proof (intro conjI impI)
  assume "stories data \<noteq> None \<and> correctIndex data = Some 0"
  then have i: "invalidResponse data" by (simp add: invalidResponse_def)
  then show "fetchGossip now (Reply True data) c
            = c\<lparr>cl_loading := False, cl_error := Some ''Invalid response from server''\<rparr>"
    by (simp add: fetchGossip_def)
  from i show "cl_stories (fetchGossip now (Reply True data) c) = cl_stories c"
    by (simp add: fetchGossip_def)
next
  show "cl_error (fetchGossip now r c) = None
        \<longleftrightarrow> (\<exists>data ss ci. r = Reply True data \<and> stories data = Some ss
                          \<and> correctIndex data = Some ci \<and> ci \<noteq> 0)"
  proof (cases r)
    case (FetchFailed msg)
    then show ?thesis by (simp add: fetchGossip_def)
  next
    case (Reply ok data)
    show ?thesis
    proof (cases ok)
      case False
      with Reply show ?thesis by (simp add: fetchGossip_def Let_def)
    next
      case True
      show ?thesis
      proof (cases "invalidResponse data")
        case inv: True
        with Reply True show ?thesis
          by (auto simp: fetchGossip_def invalidResponse_def split: option.splits)
      next
        case inv: False
        with Reply True show ?thesis
          by (auto simp: fetchGossip_def acceptStories_def Let_def invalidResponse_def
              split: option.splits)
      qed
    qed
  qed
next
  assume "r = Reply True data \<and> stories data = Some ss \<and> correctIndex data = Some ci \<and> ci \<noteq> 0"
  then have r: "r = Reply True data" and s: "stories data = Some ss"
    and c: "correctIndex data = Some ci" and n: "\<not> invalidResponse data"
    by (simp_all add: invalidResponse_def)
  from r s c n show "cl_stories (fetchGossip now r c) = ss"
    by (simp add: fetchGossip_def acceptStories_def Let_def)
  from r s c n show "cl_correctIndex (fetchGossip now r c) = ci"
    by (simp add: fetchGossip_def acceptStories_def Let_def)
qed

theorem fetchGossip_rejects_index_zero_witness:
  "status (GET exampleEnv (Some ''Taylor Swift'') (RecentIds [])) = 200
   \<and> stories (body (GET exampleEnv (Some ''Taylor Swift'') (RecentIds []))) \<noteq> None
   \<and> correctIndex (body (GET exampleEnv (Some ''Taylor Swift'') (RecentIds []))) = Some 0
   \<and> fetchGossip 1700003600000
         (Reply True (body (GET exampleEnv (Some ''Taylor Swift'') (RecentIds []))))
         (initialClient ''Taylor Swift'' NoItem)
       = (initialClient ''Taylor Swift'' NoItem)
           \<lparr>cl_loading := False, cl_error := Some ''Invalid response from server''\<rparr>
   \<and> cl_stories (fetchGossip 1700003600000
         (Reply True (body (GET exampleEnv (Some ''Taylor Swift'') (RecentIds []))))
         (initialClient ''Taylor Swift'' NoItem)) = []"
proof -
  have a: "status (GET exampleEnv (Some ''Taylor Swift'') (RecentIds [])) = 200"
    by code_simp
  have b: "stories (body (GET exampleEnv (Some ''Taylor Swift'') (RecentIds []))) \<noteq> None"
    by code_simp
  have c: "correctIndex (body (GET exampleEnv (Some ''Taylor Swift'') (RecentIds []))) = Some 0"
    by code_simp
  have d: "cl_stories (initialClient ''Taylor Swift'' NoItem) = []"
    by (simp add: initialClient_def)
  show ?thesis
    using a b c d
      fetchGossip_rejects_index_zero
        [of "body (GET exampleEnv (Some ''Taylor Swift'') (RecentIds []))" 1700003600000
            "initialClient ''Taylor Swift'' NoItem"]
    by simp
qed






end
